theory Spec2Isabelle
  imports Main
begin

section \<open>Shared JavaScript vocabulary\<close>

text \<open>
  A rejected promise or a thrown exception is a value of \<open>js_error\<close>; a computation that can
  throw returns \<open>js_error + 'a\<close> with \<open>Inl\<close> for the error. Addresses, keys and ABI-encoded call
  data are JavaScript strings. Nonces are JavaScript numbers holding non-negative integers; they
  are modelled as \<open>nat\<close>, on which \<open>+\<close> agrees with the JavaScript sum for every integer below
  \<open>2^53\<close>.
\<close>

datatype js_error = JsError string | JsTypeError string

text \<open>\<^verbatim>\<open>array.map((x, i) => f(x, i))\<close>: the callback receives the element and its index.\<close>

fun map_indexed :: "('a \<Rightarrow> nat \<Rightarrow> 'b) \<Rightarrow> nat \<Rightarrow> 'a list \<Rightarrow> 'b list" where
  "map_indexed f i [] = []"
| "map_indexed f i (x # xs) = f x i # map_indexed f (Suc i) xs"

definition js_map :: "('a \<Rightarrow> nat \<Rightarrow> 'b) \<Rightarrow> 'a list \<Rightarrow> 'b list" where
  "js_map f xs = map_indexed f 0 xs"

text \<open>
  \<^verbatim>\<open>Promise.all\<close>: the values in the order of the input array when every promise
  fulfils, a rejection when one rejects. JavaScript rejects with the rejection that settles first
  in time; the model reports the first one in array order.
\<close>

fun Promise_all :: "('e + 'a) list \<Rightarrow> 'e + 'a list" where
  "Promise_all [] = Inr []"
| "Promise_all (Inl e # ps) = Inl e"
| "Promise_all (Inr v # ps) = (case Promise_all ps of Inl e \<Rightarrow> Inl e | Inr vs \<Rightarrow> Inr (v # vs))"


section \<open>ContractMultiSig (nightfall-optimist, process-calldata.mjs)\<close>

text \<open>The calls \<^verbatim>\<open>contractInstance.methods.<name>(<args>)\<close> that the class encodes.\<close>

datatype method_call =
    Call_transferOwnership string
  | Call_setRestriction string int int
  | Call_removeRestriction string
  | Call_pause
  | Call_unpause
  | Call_setBootProposer string
  | Call_setBootChallenger string
  | Call_setMaticAddress string

text \<open>
  A web3 contract instance: \<^verbatim>\<open>options.address\<close>, and \<^verbatim>\<open>methods.m(args).encodeABI()\<close>
  as a function of the call (the ABI encoder belongs to web3).
\<close>

record contract =
  options_address :: string
  encodeABI :: "method_call \<Rightarrow> string"

record contract_instances =
  ci_multisig :: contract
  ci_shield :: contract
  ci_state :: contract
  ci_proposers :: contract
  ci_challenges :: contract

text \<open>The part of the web3 provider the class uses: \<^verbatim>\<open>eth.accounts.privateKeyToAccount(key, true).address\<close>,
  which throws on a key it cannot parse.\<close>

record web3_provider =
  privateKeyToAccount_address :: "string \<Rightarrow> js_error + string"

text \<open>
  \<^verbatim>\<open>new MultiSig(web3, multisigContract, signatureThreshold, chainId, gasLimit)\<close>. The class
  MultiSig lives in multisig.mjs, which is not among the sources; the object is the record of its
  constructor arguments, and its method \<^verbatim>\<open>addMultiSigSignature\<close> is a parameter of every
  function below.
\<close>

record multi_sig =
  ms_web3 :: web3_provider
  ms_contract :: contract
  ms_signatureThreshold :: nat
  ms_chainId :: nat
  ms_gasLimit :: nat

text \<open>The five arguments of one call
  \<^verbatim>\<open>addMultiSigSignature(data, signingKey, contractAddress, executorAddress, nonce)\<close>.\<close>

record multisig_request =
  req_data :: string
  req_signingKey :: string
  req_contractAddress :: string
  req_executorAddress :: string
  req_nonce :: nat

type_synonym 's add_signature = "multi_sig \<Rightarrow> multisig_request \<Rightarrow> js_error + 's"

record contract_multi_sig =
  multiSig :: multi_sig
  web3 :: web3_provider
  contractInstances :: contract_instances
  contractInstancesOwnables :: "contract list"
  contractInstancesPausables :: "contract list"

text \<open>The constructor: both target lists start empty (the field initialisers) and receive
  their contracts by one \<^verbatim>\<open>push\<close> each.\<close>

definition ContractMultiSig ::
  "web3_provider \<Rightarrow> contract_instances \<Rightarrow> nat \<Rightarrow> nat \<Rightarrow> nat \<Rightarrow> contract_multi_sig" where
  "ContractMultiSig web3Provider instances signatureThreshold chainId gasLimit =
     \<lparr> multiSig = \<lparr> ms_web3 = web3Provider, ms_contract = ci_multisig instances,
                      ms_signatureThreshold = signatureThreshold, ms_chainId = chainId,
                      ms_gasLimit = gasLimit \<rparr>,
       web3 = web3Provider,
       contractInstances = instances,
       contractInstancesOwnables =
         [] @ [ci_shield instances, ci_state instances, ci_proposers instances,
               ci_challenges instances],
       contractInstancesPausables = [] @ [ci_shield instances, ci_state instances] \<rparr>"

definition transferOwnership ::
  "'s add_signature \<Rightarrow> contract_multi_sig \<Rightarrow> string \<Rightarrow> string \<Rightarrow> string \<Rightarrow> nat \<Rightarrow> js_error + 's list" where
  "transferOwnership addMultiSigSignature this newOwnerPrivateKey signingKey executorAddress nonce =
     (case privateKeyToAccount_address (web3 this) newOwnerPrivateKey of
        Inl e \<Rightarrow> Inl e
      | Inr newOwner \<Rightarrow>
          Promise_all (js_map (\<lambda>ownable i.
              let contractInstance = ownable;
                  data = encodeABI contractInstance (Call_transferOwnership newOwner)
              in addMultiSigSignature (multiSig this)
                   \<lparr> req_data = data, req_signingKey = signingKey,
                     req_contractAddress = options_address contractInstance,
                     req_executorAddress = executorAddress, req_nonce = nonce + i \<rparr>)
            (contractInstancesOwnables this)))"

definition setTokenRestrictions ::
  "'s add_signature \<Rightarrow> contract_multi_sig \<Rightarrow> string \<Rightarrow> int \<Rightarrow> int \<Rightarrow> string \<Rightarrow> string \<Rightarrow> nat \<Rightarrow> js_error + 's list" where
  "setTokenRestrictions addMultiSigSignature this tokenAddress depositRestriction withdrawRestriction
       signingKey executorAddress nonce =
     (let data = encodeABI (ci_shield (contractInstances this))
                   (Call_setRestriction tokenAddress depositRestriction withdrawRestriction)
      in Promise_all
           [addMultiSigSignature (multiSig this)
              \<lparr> req_data = data, req_signingKey = signingKey,
                req_contractAddress = options_address (ci_shield (contractInstances this)),
                req_executorAddress = executorAddress, req_nonce = nonce \<rparr>])"

definition removeTokenRestrictions ::
  "'s add_signature \<Rightarrow> contract_multi_sig \<Rightarrow> string \<Rightarrow> string \<Rightarrow> string \<Rightarrow> nat \<Rightarrow> js_error + 's list" where
  "removeTokenRestrictions addMultiSigSignature this tokenAddress signingKey executorAddress nonce =
     (let data = encodeABI (ci_shield (contractInstances this)) (Call_removeRestriction tokenAddress)
      in Promise_all
           [addMultiSigSignature (multiSig this)
              \<lparr> req_data = data, req_signingKey = signingKey,
                req_contractAddress = options_address (ci_shield (contractInstances this)),
                req_executorAddress = executorAddress, req_nonce = nonce \<rparr>])"

definition pauseContracts ::
  "'s add_signature \<Rightarrow> contract_multi_sig \<Rightarrow> string \<Rightarrow> string \<Rightarrow> nat \<Rightarrow> js_error + 's list" where
  "pauseContracts addMultiSigSignature this signingKey executorAddress nonce =
     Promise_all (js_map (\<lambda>pausable i.
         let contractInstance = pausable;
             data = encodeABI contractInstance Call_pause
         in addMultiSigSignature (multiSig this)
              \<lparr> req_data = data, req_signingKey = signingKey,
                req_contractAddress = options_address contractInstance,
                req_executorAddress = executorAddress, req_nonce = nonce + i \<rparr>)
       (contractInstancesPausables this))"

definition unpauseContracts ::
  "'s add_signature \<Rightarrow> contract_multi_sig \<Rightarrow> string \<Rightarrow> string \<Rightarrow> nat \<Rightarrow> js_error + 's list" where
  "unpauseContracts addMultiSigSignature this signingKey executorAddress nonce =
     Promise_all (js_map (\<lambda>pausable i.
         let contractInstance = pausable;
             data = encodeABI contractInstance Call_unpause
         in addMultiSigSignature (multiSig this)
              \<lparr> req_data = data, req_signingKey = signingKey,
                req_contractAddress = options_address contractInstance,
                req_executorAddress = executorAddress, req_nonce = nonce + i \<rparr>)
       (contractInstancesPausables this))"

definition setBootProposer ::
  "'s add_signature \<Rightarrow> contract_multi_sig \<Rightarrow> string \<Rightarrow> string \<Rightarrow> string \<Rightarrow> nat \<Rightarrow> js_error + 's list" where
  "setBootProposer addMultiSigSignature this newProposerPrivateKey signingKey executorAddress nonce =
     (case privateKeyToAccount_address (web3 this) newProposerPrivateKey of
        Inl e \<Rightarrow> Inl e
      | Inr newProposer \<Rightarrow>
          let shieldContractInstance = ci_shield (contractInstances this);
              data = encodeABI shieldContractInstance (Call_setBootProposer newProposer)
          in Promise_all
               [addMultiSigSignature (multiSig this)
                  \<lparr> req_data = data, req_signingKey = signingKey,
                    req_contractAddress = options_address shieldContractInstance,
                    req_executorAddress = executorAddress, req_nonce = nonce \<rparr>])"

definition setBootChallenger ::
  "'s add_signature \<Rightarrow> contract_multi_sig \<Rightarrow> string \<Rightarrow> string \<Rightarrow> string \<Rightarrow> nat \<Rightarrow> js_error + 's list" where
  "setBootChallenger addMultiSigSignature this newChallengerPrivateKey signingKey executorAddress nonce =
     (case privateKeyToAccount_address (web3 this) newChallengerPrivateKey of
        Inl e \<Rightarrow> Inl e
      | Inr newChallenger \<Rightarrow>
          let shieldContractInstance = ci_shield (contractInstances this);
              data = encodeABI shieldContractInstance (Call_setBootChallenger newChallenger)
          in Promise_all
               [addMultiSigSignature (multiSig this)
                  \<lparr> req_data = data, req_signingKey = signingKey,
                    req_contractAddress = options_address shieldContractInstance,
                    req_executorAddress = executorAddress, req_nonce = nonce \<rparr>])"

definition setMaticAddress ::
  "'s add_signature \<Rightarrow> contract_multi_sig \<Rightarrow> string \<Rightarrow> string \<Rightarrow> string \<Rightarrow> nat \<Rightarrow> js_error + 's list" where
  "setMaticAddress addMultiSigSignature this newMaticAddress signingKey executorAddress nonce =
     (let shieldContractInstance = ci_shield (contractInstances this);
          data = encodeABI shieldContractInstance (Call_setMaticAddress newMaticAddress)
      in Promise_all
           [addMultiSigSignature (multiSig this)
              \<lparr> req_data = data, req_signingKey = signingKey,
                req_contractAddress = options_address shieldContractInstance,
                req_executorAddress = executorAddress, req_nonce = nonce \<rparr>])"


section \<open>Nf3 nonce management (cli/lib/nf3.mjs)\<close>

text \<open>
  \<^verbatim>\<open>getAccounts()\<close> yields the address of the signing key, or, for the empty key, the
  (unawaited) promise of the node's first account.
\<close>

datatype account = Account string | NodeAccountPromise

text \<open>
  The fields of an Nf3 object that \<^verbatim>\<open>setEthereumSigningKey\<close> and
  \<^verbatim>\<open>submitTransaction\<close> read or write. A field that may be \<^verbatim>\<open>undefined\<close> is an
  option. The class initialises \<^verbatim>\<open>nonce = 0\<close> and \<^verbatim>\<open>defaultFee = 10\<close>.
\<close>

record nf3 =
  shieldContractAddress :: "string option"
  ethereumSigningKey :: "string option"
  ethereumAddress :: "account option"
  defaultFee :: nat
  nonce :: nat

text \<open>The transaction envelope built inside the critical section.\<close>

record transaction =
  tx_from :: "account option"
  tx_to :: "string option"
  tx_data :: string
  tx_value :: nat
  tx_gas :: nat
  tx_gasPrice :: nat
  tx_nonce :: nat

text \<open>
  The chain as the object sees it. Every call of \<^verbatim>\<open>web3.eth.getTransactionCount\<close> is
  recorded, with its argument, in a log of reads; the answer to a read may depend on the reads
  made before it and on the address asked for, and may be a rejection. Signing and sending are
  functions of their argument.
\<close>

type_synonym chain_reads = "account option list"

record 'r nf3_web3 =
  getTransactionCount :: "chain_reads \<Rightarrow> account option \<Rightarrow> js_error + nat"
  signTransaction :: "transaction \<Rightarrow> string \<Rightarrow> js_error + string"
  sendSignedTransaction :: "string \<Rightarrow> js_error + 'r"
  sendTransaction :: "transaction \<Rightarrow> js_error + 'r"
  accounts :: web3_provider

definition getAccounts :: "'r nf3_web3 \<Rightarrow> nf3 \<Rightarrow> js_error + account" where
  "getAccounts w this =
     (case ethereumSigningKey this of
        None \<Rightarrow> Inl (JsTypeError ''Cannot read properties of undefined (reading length)'')
      | Some key \<Rightarrow>
          if length key = 0 then Inr NodeAccountPromise
          else (case privateKeyToAccount_address (accounts w) key of
                  Inl e \<Rightarrow> Inl e
                | Inr address \<Rightarrow> Inr (Account address)))"

text \<open>
  \<^verbatim>\<open>setEthereumSigningKey(key)\<close>: three assignments in sequence. When
  \<^verbatim>\<open>getAccounts\<close> throws, the key has been stored and the address and nonce keep their
  old values. The result is the outcome of the call and the object after it.
\<close>

definition setEthereumSigningKey ::
  "'r nf3_web3 \<Rightarrow> string \<Rightarrow> nf3 \<Rightarrow> (js_error + unit) \<times> nf3" where
  "setEthereumSigningKey w key this =
     (let this1 = this\<lparr>ethereumSigningKey := Some key\<rparr>
      in case getAccounts w this1 of
           Inl e \<Rightarrow> (Inl e, this1)
         | Inr address \<Rightarrow> (Inr (), this1\<lparr>ethereumAddress := Some address, nonce := 0\<rparr>))"

text \<open>
  The callback passed to \<^verbatim>\<open>nonceMutex.runExclusive\<close> in \<^verbatim>\<open>submitTransaction\<close>.
  \<^verbatim>\<open>!this.nonce\<close> holds exactly for the number 0. With no nonce held, the transaction count
  is read and stored, and read a second time for the \<^verbatim>\<open>console.log\<close> line; either read may
  reject, which leaves the callback at that point. Then the envelope is built with the nonce held
  and the nonce is incremented. The result is the envelope (or the rejection), the object and
  the log of reads.
\<close>

definition nonce_critical_section ::
  "'r nf3_web3 \<Rightarrow> string \<Rightarrow> string option \<Rightarrow> nat \<Rightarrow> nf3 \<Rightarrow> chain_reads \<Rightarrow>
     (js_error + transaction) \<times> nf3 \<times> chain_reads" where
  "nonce_critical_section w unsignedTransaction contractAddress fee this reads =
     (let build = (\<lambda>this' reads'.
            (Inr \<lparr> tx_from = ethereumAddress this', tx_to = contractAddress,
                   tx_data = unsignedTransaction, tx_value = fee, tx_gas = 10000000,
                   tx_gasPrice = 10000000000, tx_nonce = nonce this' \<rparr>,
             this'\<lparr>nonce := nonce this' + 1\<rparr>, reads'))
      in if nonce this = 0 then
           (case getTransactionCount w reads (ethereumAddress this) of
              Inl e \<Rightarrow> (Inl e, this, reads @ [ethereumAddress this])
            | Inr n \<Rightarrow>
                let this1 = this\<lparr>nonce := n\<rparr>;
                    reads1 = reads @ [ethereumAddress this]
                in (case getTransactionCount w reads1 (ethereumAddress this1) of
                      Inl e \<Rightarrow> (Inl e, this1, reads1 @ [ethereumAddress this1])
                    | Inr logged \<Rightarrow> build this1 (reads1 @ [ethereumAddress this1])))
         else build this reads)"

text \<open>
  \<^verbatim>\<open>submitTransaction(unsignedTransaction, contractAddress, fee)\<close>, called while no other
  call holds the mutex: the critical section, then signing and sending with the key when the
  key is truthy (a non-empty string), else sending unsigned. An omitted second or third
  argument (\<open>None\<close>) takes its default from the object.
\<close>

definition submitTransaction ::
  "'r nf3_web3 \<Rightarrow> string \<Rightarrow> string option option \<Rightarrow> nat option \<Rightarrow> nf3 \<Rightarrow> chain_reads \<Rightarrow>
     (js_error + 'r) \<times> nf3 \<times> chain_reads" where
  "submitTransaction w unsignedTransaction contractAddress fee this reads =
     (let to = (case contractAddress of None \<Rightarrow> shieldContractAddress this | Some a \<Rightarrow> a);
          value = (case fee of None \<Rightarrow> defaultFee this | Some f \<Rightarrow> f)
      in case nonce_critical_section w unsignedTransaction to value this reads of
           (Inl e, this', reads') \<Rightarrow> (Inl e, this', reads')
         | (Inr tx, this', reads') \<Rightarrow>
             (case ethereumSigningKey this' of
                Some (c # cs) \<Rightarrow>
                  (case signTransaction w tx (c # cs) of
                     Inl e \<Rightarrow> (Inl e, this', reads')
                   | Inr rawTransaction \<Rightarrow> (sendSignedTransaction w rawTransaction, this', reads'))
              | _ \<Rightarrow> (sendTransaction w tx, this', reads')))"


section \<open>The administrator's control loop (nightfall-administrator, get-info.mjs)\<close>

text \<open>
  The answers destructured from \<^verbatim>\<open>askQuestions(false)\<close>. The bindings are \<^verbatim>\<open>const\<close>.
  A nonce the operator did not give is \<open>None\<close>.
\<close>

record answers =
  ans_task :: string
  ans_ethereumSigningKey :: string
  ans_tokenName :: string
  ans_depositRestriction :: int
  ans_withdrawRestriction :: int
  ans_pause :: bool
  ans_unpause :: bool
  ans_newEthereumSigningKey :: string
  ans_executorAddress :: string
  ans_nonce :: "nat option"
  ans_signedTx :: string
  ans_workflow :: string

text \<open>The functions imported from contract-transactions.mjs, each with the arguments
  \<^verbatim>\<open>start\<close> passes to it.\<close>

datatype helper_call =
    Helper_setTokenRestrictions string int int string string "nat option"
  | Helper_removeTokenRestrictions string string string "nat option"
  | Helper_unpauseContracts string string "nat option"
  | Helper_pauseContracts string string "nat option"
  | Helper_transferOwnership string string string "nat option"
  | Helper_setBootProposer string string string "nat option"
  | Helper_setBootChallenger string string string "nat option"

datatype log_message =
    Log_token_restrictions int int
  | Log_text string
  | Log_get_nonce "nat option"
  | Log_could_not_get_nonce js_error

text \<open>
  What \<^verbatim>\<open>start\<close> does to the outside, in the order it does it: every call of an imported
  function with its arguments and its outcome, every log line, and the closing of the
  connection. \<open>'t\<close> is the type of a signed transaction object.
\<close>

datatype 't event =
    Ev_getTokenRestrictions string "js_error + int \<times> int"
  | Ev_contract_transaction helper_call "js_error + 't list option list"
  | Ev_addSignedTransaction 't "js_error + 't list"
  | Ev_waitForContract string "js_error option"
  | Ev_nonce_call "js_error + nat"
  | Ev_askQuestions_executor "js_error + string option"
  | Ev_executeMultiSigTransaction "'t list" "string option" "js_error option"
  | Ev_logger_info log_message
  | Ev_logger_error log_message
  | Ev_connection_close

text \<open>
  The imported functions, none of which is among the sources, as parameters. An asynchronous
  one transforms the state \<open>'w\<close> of the outside (database, chain, terminal) and fulfils with a
  value or rejects with an error; \<^verbatim>\<open>verifyTransactions\<close> is synchronous and returns the
  array of arrays of signed transactions, or a falsy value (\<open>None\<close>).
\<close>

record ('w, 't) admin_env =
  getTokenRestrictions :: "string \<Rightarrow> 'w \<Rightarrow> (js_error + int \<times> int) \<times> 'w"
  contract_transaction :: "helper_call \<Rightarrow> 'w \<Rightarrow> (js_error + 't list option list) \<times> 'w"
  verifyTransactions :: "string \<Rightarrow> js_error + 't list list option"
  addSignedTransaction :: "'t \<Rightarrow> 'w \<Rightarrow> (js_error + 't list) \<times> 'w"
  waitForContract :: "string \<Rightarrow> 'w \<Rightarrow> js_error option \<times> 'w"
  nonce_call :: "'w \<Rightarrow> (js_error + nat) \<times> 'w"
  askQuestions_executor :: "'w \<Rightarrow> (js_error + string option) \<times> 'w"
  executeMultiSigTransaction :: "'t list \<Rightarrow> string option \<Rightarrow> 'w \<Rightarrow> js_error option \<times> 'w"

text \<open>The state threaded through \<^verbatim>\<open>start\<close>: the outside, and the events so far.\<close>

type_synonym ('w, 't) admin_state = "'w \<times> 't event list"

definition logger_info :: "log_message \<Rightarrow> ('w, 't) admin_state \<Rightarrow> ('w, 't) admin_state" where
  "logger_info m s = (fst s, snd s @ [Ev_logger_info m])"

definition logger_error :: "log_message \<Rightarrow> ('w, 't) admin_state \<Rightarrow> ('w, 't) admin_state" where
  "logger_error m s = (fst s, snd s @ [Ev_logger_error m])"

definition connection_close :: "('w, 't) admin_state \<Rightarrow> ('w, 't) admin_state" where
  "connection_close s = (fst s, snd s @ [Ev_connection_close])"

definition call_getTokenRestrictions ::
  "('w, 't) admin_env \<Rightarrow> string \<Rightarrow> ('w, 't) admin_state \<Rightarrow> (js_error + int \<times> int) \<times> ('w, 't) admin_state" where
  "call_getTokenRestrictions env tokenName s =
     (case getTokenRestrictions env tokenName (fst s) of
        (r, w') \<Rightarrow> (r, (w', snd s @ [Ev_getTokenRestrictions tokenName r])))"

definition call_contract_transaction ::
  "('w, 't) admin_env \<Rightarrow> helper_call \<Rightarrow> ('w, 't) admin_state \<Rightarrow>
     (js_error + 't list option list) \<times> ('w, 't) admin_state" where
  "call_contract_transaction env h s =
     (case contract_transaction env h (fst s) of
        (r, w') \<Rightarrow> (r, (w', snd s @ [Ev_contract_transaction h r])))"

definition call_addSignedTransaction ::
  "('w, 't) admin_env \<Rightarrow> 't \<Rightarrow> ('w, 't) admin_state \<Rightarrow> (js_error + 't list) \<times> ('w, 't) admin_state" where
  "call_addSignedTransaction env tx s =
     (case addSignedTransaction env tx (fst s) of
        (r, w') \<Rightarrow> (r, (w', snd s @ [Ev_addSignedTransaction tx r])))"

definition call_waitForContract ::
  "('w, 't) admin_env \<Rightarrow> string \<Rightarrow> ('w, 't) admin_state \<Rightarrow> js_error option \<times> ('w, 't) admin_state" where
  "call_waitForContract env name s =
     (case waitForContract env name (fst s) of
        (r, w') \<Rightarrow> (r, (w', snd s @ [Ev_waitForContract name r])))"

definition call_nonce ::
  "('w, 't) admin_env \<Rightarrow> ('w, 't) admin_state \<Rightarrow> (js_error + nat) \<times> ('w, 't) admin_state" where
  "call_nonce env s =
     (case nonce_call env (fst s) of (r, w') \<Rightarrow> (r, (w', snd s @ [Ev_nonce_call r])))"

definition call_askQuestions_executor ::
  "('w, 't) admin_env \<Rightarrow> ('w, 't) admin_state \<Rightarrow> (js_error + string option) \<times> ('w, 't) admin_state" where
  "call_askQuestions_executor env s =
     (case askQuestions_executor env (fst s) of
        (r, w') \<Rightarrow> (r, (w', snd s @ [Ev_askQuestions_executor r])))"

definition call_executeMultiSigTransaction ::
  "('w, 't) admin_env \<Rightarrow> 't list \<Rightarrow> string option \<Rightarrow> ('w, 't) admin_state \<Rightarrow>
     js_error option \<times> ('w, 't) admin_state" where
  "call_executeMultiSigTransaction env signed executor s =
     (case executeMultiSigTransaction env signed executor (fst s) of
        (r, w') \<Rightarrow> (r, (w', snd s @ [Ev_executeMultiSigTransaction signed executor r])))"

text \<open>The \<^verbatim>\<open>create\<close> workflow: the \<^verbatim>\<open>switch\<close> over the task. The result is the new
  value of \<^verbatim>\<open>approved\<close>, which starts as the empty array.\<close>

definition create_workflow ::
  "('w, 't) admin_env \<Rightarrow> answers \<Rightarrow> ('w, 't) admin_state \<Rightarrow>
     (js_error + 't list option list) \<times> ('w, 't) admin_state" where
  "create_workflow env a s =
     (if ans_workflow a = ''create'' then
        (if ans_task a = ''Get token restrictions'' then
           (case call_getTokenRestrictions env (ans_tokenName a) s of
              (Inl e, s') \<Rightarrow> (Inl e, s')
            | (Inr (deposit, withdraw), s') \<Rightarrow>
                (Inr [], logger_info (Log_token_restrictions deposit withdraw) s'))
         else if ans_task a = ''Set token restrictions'' then
           call_contract_transaction env
             (Helper_setTokenRestrictions (ans_tokenName a) (ans_depositRestriction a)
                (ans_withdrawRestriction a) (ans_ethereumSigningKey a) (ans_executorAddress a)
                (ans_nonce a)) s
         else if ans_task a = ''Remove token restrictions'' then
           call_contract_transaction env
             (Helper_removeTokenRestrictions (ans_tokenName a) (ans_ethereumSigningKey a)
                (ans_executorAddress a) (ans_nonce a)) s
         else if ans_task a = ''Unpause contracts'' then
           (if \<not> ans_unpause a then (Inr [], s)
            else call_contract_transaction env
                   (Helper_unpauseContracts (ans_ethereumSigningKey a) (ans_executorAddress a)
                      (ans_nonce a))
                   (logger_info (Log_text ''CALLING unpauseContracts'') s))
         else if ans_task a = ''Pause contracts'' then
           (if \<not> ans_pause a then (Inr [], s)
            else call_contract_transaction env
                   (Helper_pauseContracts (ans_ethereumSigningKey a) (ans_executorAddress a)
                      (ans_nonce a)) s)
         else if ans_task a = ''Transfer ownership'' then
           call_contract_transaction env
             (Helper_transferOwnership (ans_newEthereumSigningKey a) (ans_ethereumSigningKey a)
                (ans_executorAddress a) (ans_nonce a)) s
         else if ans_task a = ''Set new boot proposer'' then
           call_contract_transaction env
             (Helper_setBootProposer (ans_newEthereumSigningKey a) (ans_ethereumSigningKey a)
                (ans_executorAddress a) (ans_nonce a)) s
         else if ans_task a = ''Set new boot challenger'' then
           call_contract_transaction env
             (Helper_setBootChallenger (ans_newEthereumSigningKey a) (ans_ethereumSigningKey a)
                (ans_executorAddress a) (ans_nonce a)) s
         else (Inr [], logger_info (Log_text ''This option has not been implemented'') s))
      else (Inr [], s))"

text \<open>
  The \<^verbatim>\<open>add\<close> workflow. The inner loop keeps the result of the last
  \<^verbatim>\<open>addSignedTransaction\<close> of a group (\<^verbatim>\<open>approvals\<close>, undefined for an empty group); the
  outer loop pushes it onto \<^verbatim>\<open>approved\<close>. Nothing catches a rejection.
\<close>

fun add_transactions ::
  "('w, 't) admin_env \<Rightarrow> 't list \<Rightarrow> 't list option \<Rightarrow> ('w, 't) admin_state \<Rightarrow>
     (js_error + 't list option) \<times> ('w, 't) admin_state" where
  "add_transactions env [] approvals s = (Inr approvals, s)"
| "add_transactions env (tx # txs) approvals s =
     (case call_addSignedTransaction env tx s of
        (Inl e, s') \<Rightarrow> (Inl e, s')
      | (Inr r, s') \<Rightarrow> add_transactions env txs (Some r) s')"

fun add_verified ::
  "('w, 't) admin_env \<Rightarrow> 't list list \<Rightarrow> 't list option list \<Rightarrow> ('w, 't) admin_state \<Rightarrow>
     (js_error + 't list option list) \<times> ('w, 't) admin_state" where
  "add_verified env [] approved s = (Inr approved, s)"
| "add_verified env (txs # rest) approved s =
     (case add_transactions env txs None s of
        (Inl e, s') \<Rightarrow> (Inl e, s')
      | (Inr approvals, s') \<Rightarrow> add_verified env rest (approved @ [approvals]) s')"

definition add_workflow ::
  "('w, 't) admin_env \<Rightarrow> answers \<Rightarrow> 't list option list \<Rightarrow> ('w, 't) admin_state \<Rightarrow>
     (js_error + 't list option list) \<times> ('w, 't) admin_state" where
  "add_workflow env a approved s =
     (if ans_workflow a = ''add'' then
        (case verifyTransactions env (ans_signedTx a) of
           Inl e \<Rightarrow> (Inl e, s)
         | Inr None \<Rightarrow> (Inr approved, s)
         | Inr (Some verified) \<Rightarrow> add_verified env verified approved s)
      else (Inr approved, s))"

text \<open>
  The \<^verbatim>\<open>get nonce\<close> workflow. \<^verbatim>\<open>!nonce\<close> holds for a missing nonce and for 0. Inside
  the \<^verbatim>\<open>try\<close>, the contract is awaited and its nonce read; the assignment of the value read
  to the \<^verbatim>\<open>const\<close> binding \<^verbatim>\<open>nonce\<close> then throws a TypeError. Whatever is thrown inside
  the \<^verbatim>\<open>try\<close> is caught and logged, and \<^verbatim>\<open>start\<close> goes on.
\<close>

definition nonce_is_falsy :: "nat option \<Rightarrow> bool" where
  "nonce_is_falsy n = (case n of None \<Rightarrow> True | Some v \<Rightarrow> v = 0)"

definition get_nonce_try ::
  "('w, 't) admin_env \<Rightarrow> answers \<Rightarrow> ('w, 't) admin_state \<Rightarrow> js_error option \<times> ('w, 't) admin_state" where
  "get_nonce_try env a s =
     (case (if nonce_is_falsy (ans_nonce a) then
              (case call_waitForContract env ''SimpleMultiSig'' s of
                 (Some e, s1) \<Rightarrow> (Some e, s1)
               | (None, s1) \<Rightarrow>
                   (case call_nonce env s1 of
                      (Inl e, s2) \<Rightarrow> (Some e, s2)
                    | (Inr n, s2) \<Rightarrow> (Some (JsTypeError ''Assignment to constant variable.''), s2)))
            else (None, s)) of
        (Some e, s') \<Rightarrow> (Some e, s')
      | (None, s') \<Rightarrow> (None, logger_info (Log_get_nonce (ans_nonce a)) s'))"

definition get_nonce_workflow ::
  "('w, 't) admin_env \<Rightarrow> answers \<Rightarrow> ('w, 't) admin_state \<Rightarrow> ('w, 't) admin_state" where
  "get_nonce_workflow env a s =
     (if ans_workflow a = ''get nonce'' then
        (case get_nonce_try env a s of
           (Some err, s') \<Rightarrow> logger_error (Log_could_not_get_nonce err) s'
         | (None, s') \<Rightarrow> s')
      else s)"

text \<open>
  The gate in front of the execution: \<^verbatim>\<open>approval?.length === SIGNATURE_THRESHOLD\<close>, false
  for an undefined approval.
\<close>

definition threshold_reached :: "nat \<Rightarrow> 't list option \<Rightarrow> bool" where
  "threshold_reached SIGNATURE_THRESHOLD approval =
     (case approval of None \<Rightarrow> False | Some signed \<Rightarrow> length signed = SIGNATURE_THRESHOLD)"

definition executor_is_falsy :: "string option \<Rightarrow> bool" where
  "executor_is_falsy executor = (case executor of None \<Rightarrow> True | Some key \<Rightarrow> key = [])"

text \<open>
  The execution loop over \<^verbatim>\<open>approved\<close>. An approval that passes the gate is executed:
  the executor key is asked for when none is held, then
  \<^verbatim>\<open>executeMultiSigTransaction(approval.slice(0, SIGNATURE_THRESHOLD), executor)\<close> is awaited
  before the loop goes on; a rejection ends the loop and \<^verbatim>\<open>start\<close>. The result is the
  executor key held at the end.
\<close>

fun execute_approved ::
  "('w, 't) admin_env \<Rightarrow> nat \<Rightarrow> string option \<Rightarrow> 't list option list \<Rightarrow> ('w, 't) admin_state \<Rightarrow>
     (js_error + string option) \<times> ('w, 't) admin_state" where
  "execute_approved env SIGNATURE_THRESHOLD executor [] s = (Inr executor, s)"
| "execute_approved env SIGNATURE_THRESHOLD executor (approval # rest) s =
     (if threshold_reached SIGNATURE_THRESHOLD approval then
        (case (if executor_is_falsy executor then call_askQuestions_executor env s
               else (Inr executor, s)) of
           (Inl e, s1) \<Rightarrow> (Inl e, s1)
         | (Inr executor1, s1) \<Rightarrow>
             (case call_executeMultiSigTransaction env
                     (take SIGNATURE_THRESHOLD (the approval)) executor1
                     (logger_info (Log_text ''Executing multisig transaction'') s1) of
                (Some e, s2) \<Rightarrow> (Inl e, s2)
              | (None, s2) \<Rightarrow> execute_approved env SIGNATURE_THRESHOLD executor1 rest s2))
      else execute_approved env SIGNATURE_THRESHOLD executor rest s)"

text \<open>
  \<^verbatim>\<open>start\<close>, from the answers on. It returns \<^verbatim>\<open>JSON.stringify(approved)\<close>; the model
  returns \<^verbatim>\<open>approved\<close> itself.
\<close>

definition start ::
  "('w, 't) admin_env \<Rightarrow> nat \<Rightarrow> answers \<Rightarrow> ('w, 't) admin_state \<Rightarrow>
     (js_error + 't list option list) \<times> ('w, 't) admin_state" where
  "start env SIGNATURE_THRESHOLD a s =
     (case create_workflow env a s of
        (Inl e, s1) \<Rightarrow> (Inl e, s1)
      | (Inr created, s1) \<Rightarrow>
          (case add_workflow env a created s1 of
             (Inl e, s2) \<Rightarrow> (Inl e, s2)
           | (Inr approved, s2) \<Rightarrow>
               (case execute_approved env SIGNATURE_THRESHOLD None approved
                       (get_nonce_workflow env a s2) of
                  (Inl e, s3) \<Rightarrow> (Inl e, s3)
                | (Inr executor, s3) \<Rightarrow> (Inr approved, connection_close s3))))"


text \<open>The executions recorded in a trace of events, in order: the signatures submitted and
  the outcome of each (\<open>None\<close> when \<^verbatim>\<open>executeMultiSigTransaction\<close> fulfilled).\<close>

fun executions :: "'t event list \<Rightarrow> ('t list \<times> js_error option) list" where
  "executions [] = []"
| "executions (Ev_executeMultiSigTransaction signed executor r # es) = (signed, r) # executions es"
| "executions (e # es) = executions es"


text \<open>The calls of \<^verbatim>\<open>addSignedTransaction\<close> recorded in a trace of events, in order: the
  signed transaction passed and the rejection, if the call rejected.\<close>

fun additions :: "'t event list \<Rightarrow> ('t \<times> js_error option) list" where
  "additions [] = []"
| "additions (Ev_addSignedTransaction tx (Inl e) # es) = (tx, Some e) # additions es"
| "additions (Ev_addSignedTransaction tx (Inr r) # es) = (tx, None) # additions es"
| "additions (e # es) = additions es"


section \<open>Signature merge (SignatureCollector)\<close>

text \<open>
  Modelled from the spec: \<^verbatim>\<open>verifyTransactions\<close> and \<^verbatim>\<open>addSignedTransaction\<close> of
  helpers.mjs, which verify and store the signatures that the \<^verbatim>\<open>add\<close> workflow feeds them,
  are missing from the sources. The definitions of this section follow sections 3, 4.4 and 7
  of the specification: a MultiSigCall, an incoming partial signature, the canonical payload
  that is signed, recovery of the signer from payload and signature bytes (a parameter: it is
  the ECDSA recovery of the signing library), and the SignatureSet, which maps a call to its
  signatures keyed by recovered address. The merge matches calls by the triple of target
  contract, encoded data and nonce, so the triple is the key of a call.
\<close>

record multisig_call =
  targetContract :: string
  encodedData :: string
  callNonce :: nat
  chainId :: nat
  gasLimit :: nat

text \<open>An entry of a serialized bundle. The address it claims is carried along and never
  trusted.\<close>

record partial_signature =
  multiSigCallRef :: multisig_call
  signatureBytes :: string
  claimedAddress :: string

type_synonym call_key = "string \<times> string \<times> nat"
type_synonym payload = "string \<times> string \<times> nat \<times> nat"
type_synonym recovery = "payload \<Rightarrow> string \<Rightarrow> string option"
type_synonym signature_set = "call_key \<Rightarrow> (string \<rightharpoonup> string)"

datatype merge_error = MalformedSignature | UnknownOrMismatchedCall

definition call_key :: "multisig_call \<Rightarrow> call_key" where
  "call_key c = (targetContract c, encodedData c, callNonce c)"

definition canonical_payload :: "multisig_call \<Rightarrow> payload" where
  "canonical_payload c = (targetContract c, encodedData c, callNonce c, chainId c)"

text \<open>
  Modelled from the spec: the four steps of Merge for one incoming signature (section 4.4).
  The payload is recomputed from the call the signature claims to cover, the signer is
  recovered from the signature bytes (\<open>MalformedSignature\<close> when that fails), the call must be
  one of the calls known locally (\<open>UnknownOrMismatchedCall\<close> otherwise), and the signature is
  stored under the recovered address, where a repeat address overwrites.
\<close>

definition merge_signature ::
  "recovery \<Rightarrow> multisig_call list \<Rightarrow> signature_set \<Rightarrow> partial_signature \<Rightarrow> merge_error + signature_set" where
  "merge_signature recover known S p =
     (let call = multiSigCallRef p;
          payload = canonical_payload call
      in case recover payload (signatureBytes p) of
           None \<Rightarrow> Inl MalformedSignature
         | Some address \<Rightarrow>
             if call_key call \<in> call_key ` set known
             then Inr (S(call_key call := (S (call_key call))(address \<mapsto> signatureBytes p)))
             else Inl UnknownOrMismatchedCall)"

text \<open>
  Modelled from the spec: Merge of an incoming batch as sections 4.4 and 7 of the specification
  describe it for the SignatureCollector as a whole; the helpers \<^verbatim>\<open>verifyTransactions\<close> and
  \<^verbatim>\<open>addSignedTransaction\<close> that verify and store a signature are missing from the sources.
  The clause for a failing signature (drop it and go on) is the local recovery of section 7. The
  loop that walks the batch is in the sources and is embedded above as \<open>add_verified\<close>; it has
  no recovery of its own, and ends at the first rejection of \<^verbatim>\<open>addSignedTransaction\<close>. The
  loop computes \<open>merge\<close> when \<^verbatim>\<open>verifyTransactions\<close> hands it the signatures that pass
  verification and \<^verbatim>\<open>addSignedTransaction\<close> stores each of them (lemma
  \<open>add_loop_computes_merge\<close>).
\<close>

fun merge :: "recovery \<Rightarrow> multisig_call list \<Rightarrow> signature_set \<Rightarrow> partial_signature list \<Rightarrow> signature_set" where
  "merge recover known S [] = S"
| "merge recover known S (p # ps) =
     (case merge_signature recover known S p of
        Inl e \<Rightarrow> merge recover known S ps
      | Inr S' \<Rightarrow> merge recover known S' ps)"

text \<open>The signers recorded for a call, and their number.\<close>

definition signers :: "signature_set \<Rightarrow> call_key \<Rightarrow> string set" where
  "signers S k = dom (S k)"

definition signature_count :: "signature_set \<Rightarrow> call_key \<Rightarrow> nat" where
  "signature_count S k = card (dom (S k))"

definition empty_signature_set :: signature_set where
  "empty_signature_set = (\<lambda>k. Map.empty)"

text \<open>
  Modelled from the spec: a signature passes the verification of section 4.4 (steps 1 to 3) when
  a signer is recovered from it and it covers a call known locally; the verification helper
  \<^verbatim>\<open>verifyTransactions\<close> is missing from the sources.
\<close>

definition accepted :: "recovery \<Rightarrow> multisig_call list \<Rightarrow> partial_signature \<Rightarrow> bool" where
  "accepted recover known p \<longleftrightarrow>
     recover (canonical_payload (multiSigCallRef p)) (signatureBytes p) \<noteq> None
     \<and> call_key (multiSigCallRef p) \<in> call_key ` set known"


section \<open>Concurrent calls of submitTransaction (cli/lib/nf3.mjs)\<close>

text \<open>
  Several calls of \<^verbatim>\<open>submitTransaction\<close> on one Nf3 object, none waiting for another. A
  JavaScript task runs without interruption from one \<^verbatim>\<open>await\<close> to the next, so the steps
  of a task are the pieces of \<^verbatim>\<open>submitTransaction\<close> between its awaits, and any order of
  steps of different tasks is a possible run. \<^verbatim>\<open>nonceMutex.runExclusive(callback)\<close> grants
  the mutex to one waiting task at a time, runs the callback and releases the mutex when the
  callback has settled. Task \<open>i\<close> is the \<open>i\<close>-th call; its state says where it stands:

  \<^item> \<open>Idle\<close>: not called yet;
  \<^item> \<open>Waiting\<close>: \<^verbatim>\<open>runExclusive\<close> called, mutex not granted yet;
  \<^item> \<open>Reading\<close>: in the callback with no nonce held, awaiting the first
    \<^verbatim>\<open>getTransactionCount\<close>;
  \<^item> \<open>Logging\<close>: the count is stored in \<^verbatim>\<open>this.nonce\<close>, the callback awaits the second
    \<^verbatim>\<open>getTransactionCount\<close> of the \<^verbatim>\<open>console.log\<close> line;
  \<^item> \<open>Leaving r\<close>: the callback has settled, with the nonce it put into the transaction or with
    a rejection, and the mutex is still held;
  \<^item> \<open>Released r\<close>: the mutex is released and the task goes on to sign and send.
\<close>

datatype task =
    Idle
  | Waiting
  | Reading
  | Logging
  | Leaving "js_error + nat"
  | Released "js_error + nat"

text \<open>The shared state: \<^verbatim>\<open>this.nonce\<close>, whether \<^verbatim>\<open>nonceMutex\<close> is held, and the tasks.\<close>

record process =
  p_nonce :: nat
  p_locked :: bool
  p_tasks :: "nat \<Rightarrow> task"

text \<open>
  One step of a run: a new call; the grant of the mutex to a waiting task, which then runs the
  callback to its first \<^verbatim>\<open>await\<close> (no nonce held) or to its end (the held nonce goes into
  the transaction and is incremented); the answer of the chain to the pending read of a task,
  which then runs to its next \<^verbatim>\<open>await\<close> or to its end; the release of the mutex. A step
  that is not possible in a state yields \<open>None\<close>.
\<close>

datatype action =
    Call nat
  | Acquire nat
  | Answer nat "js_error + nat"
  | Release nat

fun process_step :: "action \<Rightarrow> process \<Rightarrow> process option" where
  "process_step (Call i) p =
     (if p_tasks p i = Idle then Some (p\<lparr>p_tasks := (p_tasks p)(i := Waiting)\<rparr>) else None)"
| "process_step (Acquire i) p =
     (if p_tasks p i = Waiting \<and> \<not> p_locked p then
        (if p_nonce p = 0
         then Some (p\<lparr>p_locked := True, p_tasks := (p_tasks p)(i := Reading)\<rparr>)
         else Some (p\<lparr>p_locked := True, p_nonce := p_nonce p + 1,
                      p_tasks := (p_tasks p)(i := Leaving (Inr (p_nonce p)))\<rparr>))
      else None)"
| "process_step (Answer i r) p =
     (case p_tasks p i of
        Reading \<Rightarrow>
          (case r of
             Inl e \<Rightarrow> Some (p\<lparr>p_tasks := (p_tasks p)(i := Leaving (Inl e))\<rparr>)
           | Inr n \<Rightarrow> Some (p\<lparr>p_nonce := n, p_tasks := (p_tasks p)(i := Logging)\<rparr>))
      | Logging \<Rightarrow>
          (case r of
             Inl e \<Rightarrow> Some (p\<lparr>p_tasks := (p_tasks p)(i := Leaving (Inl e))\<rparr>)
           | Inr logged \<Rightarrow> Some (p\<lparr>p_nonce := p_nonce p + 1,
                                   p_tasks := (p_tasks p)(i := Leaving (Inr (p_nonce p)))\<rparr>))
      | _ \<Rightarrow> None)"
| "process_step (Release i) p =
     (case p_tasks p i of
        Leaving r \<Rightarrow> Some (p\<lparr>p_locked := False, p_tasks := (p_tasks p)(i := Released r)\<rparr>)
      | _ \<Rightarrow> None)"


text \<open>The nonce a task has put into its transaction, if it has come that far.\<close>

fun reserved :: "task \<Rightarrow> nat option" where
  "reserved (Leaving (Inr n)) = Some n"
| "reserved (Released (Inr n)) = Some n"
| "reserved _ = None"


fun awaiting :: "task \<Rightarrow> bool" where
  "awaiting Reading = True"
| "awaiting Logging = True"
| "awaiting _ = False"



text \<open>A fresh run: some nonce held (0 for none), the mutex free, no call made.\<close>

definition initial_process :: "nat \<Rightarrow> process" where
  "initial_process n = \<lparr> p_nonce = n, p_locked = False, p_tasks = (\<lambda>i. Idle) \<rparr>"


text \<open>
  The same runs with calls of \<^verbatim>\<open>setEthereumSigningKey\<close> among the steps. The setter is
  synchronous and does not take \<^verbatim>\<open>nonceMutex\<close>, so it can run whenever no task is
  running, also while a task awaits a read inside the callback. Its step carries the outcome of
  \<^verbatim>\<open>getAccounts\<close> for the new key: with an address, the address is stored and
  \<^verbatim>\<open>this.nonce\<close> is set to 0; with an exception, the setter is left before either assignment.
  The object also records every call of \<^verbatim>\<open>getTransactionCount\<close>, with the task that made it
  and the address passed (the value of \<^verbatim>\<open>this.ethereumAddress\<close> when the call is made), and
  every transaction built, with its task, its \<^verbatim>\<open>from\<close> and its nonce.
\<close>

record nf3_object =
  o_process :: process
  o_address :: "account option"
  o_reads :: "(nat \<times> account option) list"
  o_built :: "(nat \<times> account option \<times> nat) list"

datatype object_action =
    Task action
  | SetKey "js_error + account"

fun task_of :: "action \<Rightarrow> nat" where
  "task_of (Call i) = i"
| "task_of (Acquire i) = i"
| "task_of (Answer i r) = i"
| "task_of (Release i) = i"

text \<open>
  A step of a task is its step in \<open>process_step\<close>. A task that has just come to an
  \<^verbatim>\<open>await\<close> of a read has called \<^verbatim>\<open>getTransactionCount\<close>; a task that has just left the
  callback with a nonce has built its transaction.
\<close>

fun object_step :: "object_action \<Rightarrow> nf3_object \<Rightarrow> nf3_object option" where
  "object_step (SetKey (Inl e)) ob = Some ob"
| "object_step (SetKey (Inr address)) ob =
     Some (ob\<lparr>o_process := (o_process ob)\<lparr>p_nonce := 0\<rparr>, o_address := Some address\<rparr>)"
| "object_step (Task a) ob =
     (case process_step a (o_process ob) of
        None \<Rightarrow> None
      | Some p' \<Rightarrow>
          Some (ob\<lparr>o_process := p',
                   o_reads := o_reads ob @
                     (if awaiting (p_tasks p' (task_of a)) then [(task_of a, o_address ob)] else []),
                   o_built := o_built ob @
                     (case (a, p_tasks p' (task_of a)) of
                        (Acquire i, Leaving (Inr n)) \<Rightarrow> [(i, o_address ob, n)]
                      | (Answer i r, Leaving (Inr n)) \<Rightarrow> [(i, o_address ob, n)]
                      | _ \<Rightarrow> [])\<rparr>))"

fun object_run :: "object_action list \<Rightarrow> nf3_object \<Rightarrow> nf3_object option" where
  "object_run [] ob = Some ob"
| "object_run (a # as) ob =
     (case object_step a ob of None \<Rightarrow> None | Some ob' \<Rightarrow> object_run as ob')"

definition initial_object :: "nat \<Rightarrow> account option \<Rightarrow> nf3_object" where
  "initial_object n address =
     \<lparr> o_process = initial_process n, o_address = address, o_reads = [], o_built = [] \<rparr>"

text \<open>What a run shows from outside: the reads, the transactions built and
  \<^verbatim>\<open>this.nonce\<close> at the end.\<close>

definition observe ::
  "nf3_object option \<Rightarrow>
     ((nat \<times> account option) list \<times> (nat \<times> account option \<times> nat) list \<times> nat) option" where
  "observe r = map_option (\<lambda>ob. (o_reads ob, o_built ob, p_nonce (o_process ob))) r"


section \<open>Concrete inputs\<close>

text \<open>
  Small concrete objects on which the theorems below are instantiated. \<open>echo_signature\<close> is an
  \<^verbatim>\<open>addMultiSigSignature\<close> that answers with the request it was given, which makes the calls a
  function issues visible in its result.
\<close>

definition echo_signature :: "multisig_request add_signature" where
  "echo_signature ms request = Inr request"

fun demo_encodeABI :: "method_call \<Rightarrow> string" where
  "demo_encodeABI (Call_transferOwnership newOwner) = ''transferOwnership:'' @ newOwner"
| "demo_encodeABI Call_pause = ''pause''"
| "demo_encodeABI Call_unpause = ''unpause''"
| "demo_encodeABI c = ''other''"

definition demo_contract :: "string \<Rightarrow> contract" where
  "demo_contract a = \<lparr> options_address = a, encodeABI = demo_encodeABI \<rparr>"

definition demo_web3 :: web3_provider where
  "demo_web3 = \<lparr> privateKeyToAccount_address =
       (\<lambda>key. if length key = 0 then Inl (JsError ''Private key must be 32 bytes long'')
              else Inr (''addr-of-'' @ key)) \<rparr>"

definition demo_instances :: contract_instances where
  "demo_instances = \<lparr> ci_multisig = demo_contract ''0xM'', ci_shield = demo_contract ''0xA'',
       ci_state = demo_contract ''0xB'', ci_proposers = demo_contract ''0xC'',
       ci_challenges = demo_contract ''0xD'' \<rparr>"

definition demo_multisig :: contract_multi_sig where
  "demo_multisig = ContractMultiSig demo_web3 demo_instances 2 1337 4000000"

text \<open>A chain whose transaction count is 7 at every read, and an Nf3 object that holds the
  nonce 42 for the key \<open>''old''\<close>.\<close>

definition demo_chain :: "string nf3_web3" where
  "demo_chain = \<lparr> getTransactionCount = (\<lambda>reads address. Inr 7),
       signTransaction = (\<lambda>tx key. Inr ''raw''),
       sendSignedTransaction = (\<lambda>raw. Inr ''receipt''),
       sendTransaction = (\<lambda>tx. Inr ''receipt''),
       accounts = demo_web3 \<rparr>"

definition demo_nf3 :: nf3 where
  "demo_nf3 = \<lparr> shieldContractAddress = Some ''0xA'', ethereumSigningKey = Some ''old'',
       ethereumAddress = Some (Account ''addr-of-old''), defaultFee = 10, nonce = 42 \<rparr>"


text \<open>
  A chain like \<open>demo_chain\<close> whose key conversion throws for \<open>''not-a-key''\<close>, and a run in
  which the key is changed while call 0 awaits its read: call 0 is made with no nonce held and
  enters the callback; the key is changed to one with address \<open>''addr-of-new''\<close>; call 1 is
  made; the chain answers 7 to the pending read of call 0 and 0 to its second read; call 0
  leaves the callback, and call 1 enters and leaves it.
\<close>

definition picky_chain :: "string nf3_web3" where
  "picky_chain = demo_chain\<lparr> accounts :=
       \<lparr> privateKeyToAccount_address =
           (\<lambda>key. if key = ''not-a-key'' then Inl (JsError ''Private key must be 32 bytes long'')
                  else Inr (''addr-of-'' @ key)) \<rparr> \<rparr>"

definition key_change_schedule :: "object_action list" where
  "key_change_schedule =
     [Task (Call 0), Task (Acquire 0), SetKey (Inr (Account ''addr-of-new'')), Task (Call 1),
      Task (Answer 0 (Inr 7)), Task (Answer 0 (Inr 0)), Task (Release 0),
      Task (Acquire 1), Task (Release 1)]"


text \<open>An outside in which every imported function succeeds, one in which the contract cannot
  be reached, and the answers of an operator who asks for the nonce without giving one.\<close>

definition demo_admin_env :: "(unit, string) admin_env" where
  "demo_admin_env = \<lparr> getTokenRestrictions = (\<lambda>name w. (Inr (0, 0), w)),
       contract_transaction = (\<lambda>h w. (Inr [], w)),
       verifyTransactions = (\<lambda>signedTx. Inr None),
       addSignedTransaction = (\<lambda>tx w. (Inr [tx], w)),
       waitForContract = (\<lambda>name w. (None, w)),
       nonce_call = (\<lambda>w. (Inr 5, w)),
       askQuestions_executor = (\<lambda>w. (Inr (Some ''executor-key''), w)),
       executeMultiSigTransaction = (\<lambda>signed executor w. (None, w)) \<rparr>"

definition offline_admin_env :: "(unit, string) admin_env" where
  "offline_admin_env =
     demo_admin_env\<lparr> waitForContract := (\<lambda>name w. (Some (JsError ''connection not open''), w)) \<rparr>"

definition get_nonce_answers :: answers where
  "get_nonce_answers = \<lparr> ans_task = [], ans_ethereumSigningKey = [], ans_tokenName = [],
       ans_depositRestriction = 0, ans_withdrawRestriction = 0, ans_pause = False,
       ans_unpause = False, ans_newEthereumSigningKey = [], ans_executorAddress = [],
       ans_nonce = None, ans_signedTx = [], ans_workflow = ''get nonce'' \<rparr>"


text \<open>
  A recovery for concrete inputs: the first byte of a signature names its signer and an empty
  signature is malformed, so that \<open>''X1''\<close> and \<open>''X2''\<close> are two signatures of the signer
  \<open>''X''\<close>, as two ECDSA signatures of one key over one payload are.
\<close>

definition first_byte_recovery :: recovery where
  "first_byte_recovery payload bytes = (case bytes of [] \<Rightarrow> None | c # cs \<Rightarrow> Some [c])"

definition demo_call :: multisig_call where
  "demo_call = \<lparr> targetContract = ''0xA'', encodedData = ''pause'', callNonce = 5,
       chainId = 1337, gasLimit = 4000000 \<rparr>"

definition demo_signature :: "string \<Rightarrow> partial_signature" where
  "demo_signature bytes = \<lparr> multiSigCallRef = demo_call, signatureBytes = bytes,
       claimedAddress = [] \<rparr>"

definition foreign_signature :: "string \<Rightarrow> partial_signature" where
  "foreign_signature bytes = \<lparr> multiSigCallRef = demo_call\<lparr>encodedData := ''unpause''\<rparr>,
       signatureBytes = bytes, claimedAddress = [] \<rparr>"


text \<open>
  The answers of an operator who adds a bundle, and an outside in which the bundle holds the
  signatures \<open>''X1''\<close>, \<open>''bad''\<close> and \<open>''Y1''\<close> of one call and
  \<^verbatim>\<open>addSignedTransaction\<close> rejects \<open>''bad''\<close>.
\<close>

definition add_answers :: answers where
  "add_answers = get_nonce_answers\<lparr> ans_signedTx := ''bundle'', ans_workflow := ''add'' \<rparr>"

definition rejecting_admin_env :: "(unit, string) admin_env" where
  "rejecting_admin_env =
     demo_admin_env\<lparr>
       verifyTransactions := (\<lambda>signedTx. Inr (Some [[''X1'', ''bad'', ''Y1'']])),
       addSignedTransaction :=
         (\<lambda>tx w. if tx = ''bad'' then (Inl (JsError ''MalformedSignature''), w)
                  else (Inr [tx], w)) \<rparr>"

text \<open>
  An outside in which two signatures of a first call and one of a second call have been added
  before, and the bundle now added holds the signature \<open>''c3''\<close> of the first call and
  \<open>''d2''\<close> of the second; \<^verbatim>\<open>addSignedTransaction\<close> answers with the entire set of the
  call.
\<close>

definition two_call_admin_env :: "(unit, string) admin_env" where
  "two_call_admin_env =
     demo_admin_env\<lparr>
       verifyTransactions := (\<lambda>signedTx. Inr (Some [[''c3''], [''d2'']])),
       addSignedTransaction :=
         (\<lambda>tx w. (if tx = ''c3'' then Inr [''c1'', ''c2'', ''c3''] else Inr [''d1'', ''d2''], w)) \<rparr>"


section \<open>Properties of ContractMultiSig\<close>

lemma map_indexed_upt:
  "map_indexed f j xs = map (\<lambda>i. f (xs ! i) (j + i)) [0..<length xs]"
proof (induction xs arbitrary: j)
  case Nil
  show ?case by simp
next
  case (Cons x xs)
  have "map (\<lambda>i. f ((x # xs) ! i) (j + i)) [0..<length (x # xs)]
        = f x j # map (\<lambda>i. f ((x # xs) ! Suc i) (j + Suc i)) [0..<length xs]"
    by (simp add: upt_conv_Cons map_Suc_upt [symmetric] del: upt_Suc)
  then show ?case using Cons.IH [of "Suc j"] by simp
qed

lemma js_map_upt: "js_map f xs = map (\<lambda>i. f (xs ! i) i) [0..<length xs]"
  by (simp add: js_map_def map_indexed_upt)

lemma Promise_all_Inr_iff:
  "Promise_all ps = Inr vs \<longleftrightarrow> ps = map Inr vs"
proof (induction ps arbitrary: vs rule: Promise_all.induct)
  case 1
  show ?case by auto
next
  case (2 e ps)
  show ?case by auto
next
  case (3 v ps)
  show ?case
  proof (cases "Promise_all ps")
    case (Inl e)
    with 3 show ?thesis by (cases vs) auto
  next
    case (Inr ws)
    with 3 show ?thesis by (cases vs) auto
  qed
qed

lemma Promise_all_length:
  "Promise_all ps = Inr vs \<Longrightarrow> length vs = length ps"
  by (simp add: Promise_all_Inr_iff)

lemma Promise_all_Inr_nth:
  "Promise_all ps = Inr vs \<longleftrightarrow>
     length vs = length ps \<and> (\<forall>i<length ps. ps ! i = Inr (vs ! i))"
  by (auto simp: Promise_all_Inr_iff list_eq_iff_nth_eq)

lemma Promise_all_Inl_nth:
  "Promise_all ps = Inl e \<Longrightarrow> \<exists>i<length ps. ps ! i = Inl e"
proof (induction ps rule: Promise_all.induct)
  case 1
  then show ?case by simp
next
  case (2 e' ps)
  then show ?case by auto
next
  case (3 v ps)
  then obtain i where "i < length ps" "ps ! i = Inl e"
    by (auto split: sum.splits)
  then have "Suc i < length (Inr v # ps)" "(Inr v # ps) ! Suc i = Inl e"
    by simp_all
  then show ?case by blast
qed

lemma Promise_all_single_Inr: "Promise_all [p] = Inr vs \<longleftrightarrow> (\<exists>v. p = Inr v \<and> vs = [v])"
  by (cases p) auto

lemma Promise_all_single_Inl: "Promise_all [p] = Inl e \<longleftrightarrow> p = Inl e"
  by (cases p) auto

lemma transferOwnership_bundle:
  fixes addSig :: "'s add_signature"
  shows "(\<forall>bundle. transferOwnership addSig this newOwnerPrivateKey signingKey executorAddress n = Inr bundle \<longleftrightarrow>
        (\<exists>newOwner. privateKeyToAccount_address (web3 this) newOwnerPrivateKey = Inr newOwner
          \<and> length bundle = length (contractInstancesOwnables this)
          \<and> (\<forall>i<length (contractInstancesOwnables this).
                addSig (multiSig this)
              \<lparr> req_data = encodeABI (contractInstancesOwnables this ! i) (Call_transferOwnership newOwner), req_signingKey = signingKey,
                req_contractAddress = options_address (contractInstancesOwnables this ! i),
                req_executorAddress = executorAddress, req_nonce = n + i \<rparr>
                  = Inr (bundle ! i))))"
  by (auto simp: transferOwnership_def js_map_upt Let_def Promise_all_Inr_nth split: sum.splits)

lemma transferOwnership_rejection:
  fixes addSig :: "'s add_signature"
  shows "(\<forall>e. transferOwnership addSig this newOwnerPrivateKey signingKey executorAddress n = Inl e \<longrightarrow>
        privateKeyToAccount_address (web3 this) newOwnerPrivateKey = Inl e
        \<or> (\<exists>newOwner. privateKeyToAccount_address (web3 this) newOwnerPrivateKey = Inr newOwner
          \<and> (\<exists>i<length (contractInstancesOwnables this).
                addSig (multiSig this)
              \<lparr> req_data = encodeABI (contractInstancesOwnables this ! i) (Call_transferOwnership newOwner), req_signingKey = signingKey,
                req_contractAddress = options_address (contractInstancesOwnables this ! i),
                req_executorAddress = executorAddress, req_nonce = n + i \<rparr>
                  = Inl e)))"
  by (auto simp: transferOwnership_def js_map_upt Let_def split: sum.splits dest!: Promise_all_Inl_nth)

lemma setTokenRestrictions_bundle:
  fixes addSig :: "'s add_signature"
  shows "(\<forall>bundle. setTokenRestrictions addSig this tokenAddress depositRestriction withdrawRestriction signingKey executorAddress n = Inr bundle \<longleftrightarrow>
        (\<exists>v. addSig (multiSig this)
              \<lparr> req_data = encodeABI (ci_shield (contractInstances this)) (Call_setRestriction tokenAddress depositRestriction withdrawRestriction), req_signingKey = signingKey,
                req_contractAddress = options_address (ci_shield (contractInstances this)),
                req_executorAddress = executorAddress, req_nonce = n \<rparr>
                = Inr v
          \<and> bundle = [v]))"
  by (auto simp: setTokenRestrictions_def Let_def Promise_all_single_Inr Promise_all_single_Inl split: sum.splits)

lemma setTokenRestrictions_rejection:
  fixes addSig :: "'s add_signature"
  shows "(\<forall>e. setTokenRestrictions addSig this tokenAddress depositRestriction withdrawRestriction signingKey executorAddress n = Inl e \<longleftrightarrow>
        addSig (multiSig this)
              \<lparr> req_data = encodeABI (ci_shield (contractInstances this)) (Call_setRestriction tokenAddress depositRestriction withdrawRestriction), req_signingKey = signingKey,
                req_contractAddress = options_address (ci_shield (contractInstances this)),
                req_executorAddress = executorAddress, req_nonce = n \<rparr>
                = Inl e)"
  by (auto simp: setTokenRestrictions_def Let_def Promise_all_single_Inr Promise_all_single_Inl split: sum.splits)

lemma removeTokenRestrictions_bundle:
  fixes addSig :: "'s add_signature"
  shows "(\<forall>bundle. removeTokenRestrictions addSig this tokenAddress signingKey executorAddress n = Inr bundle \<longleftrightarrow>
        (\<exists>v. addSig (multiSig this)
              \<lparr> req_data = encodeABI (ci_shield (contractInstances this)) (Call_removeRestriction tokenAddress), req_signingKey = signingKey,
                req_contractAddress = options_address (ci_shield (contractInstances this)),
                req_executorAddress = executorAddress, req_nonce = n \<rparr>
                = Inr v
          \<and> bundle = [v]))"
  by (auto simp: removeTokenRestrictions_def Let_def Promise_all_single_Inr Promise_all_single_Inl split: sum.splits)

lemma removeTokenRestrictions_rejection:
  fixes addSig :: "'s add_signature"
  shows "(\<forall>e. removeTokenRestrictions addSig this tokenAddress signingKey executorAddress n = Inl e \<longleftrightarrow>
        addSig (multiSig this)
              \<lparr> req_data = encodeABI (ci_shield (contractInstances this)) (Call_removeRestriction tokenAddress), req_signingKey = signingKey,
                req_contractAddress = options_address (ci_shield (contractInstances this)),
                req_executorAddress = executorAddress, req_nonce = n \<rparr>
                = Inl e)"
  by (auto simp: removeTokenRestrictions_def Let_def Promise_all_single_Inr Promise_all_single_Inl split: sum.splits)

lemma pauseContracts_bundle:
  fixes addSig :: "'s add_signature"
  shows "(\<forall>bundle. pauseContracts addSig this signingKey executorAddress n = Inr bundle \<longleftrightarrow>
          length bundle = length (contractInstancesPausables this)
          \<and> (\<forall>i<length (contractInstancesPausables this).
                addSig (multiSig this)
              \<lparr> req_data = encodeABI (contractInstancesPausables this ! i) Call_pause, req_signingKey = signingKey,
                req_contractAddress = options_address (contractInstancesPausables this ! i),
                req_executorAddress = executorAddress, req_nonce = n + i \<rparr>
                  = Inr (bundle ! i)))"
  by (auto simp: pauseContracts_def js_map_upt Let_def Promise_all_Inr_nth split: sum.splits)

lemma pauseContracts_rejection:
  fixes addSig :: "'s add_signature"
  shows "(\<forall>e. pauseContracts addSig this signingKey executorAddress n = Inl e \<longrightarrow>
          (\<exists>i<length (contractInstancesPausables this).
                addSig (multiSig this)
              \<lparr> req_data = encodeABI (contractInstancesPausables this ! i) Call_pause, req_signingKey = signingKey,
                req_contractAddress = options_address (contractInstancesPausables this ! i),
                req_executorAddress = executorAddress, req_nonce = n + i \<rparr>
                  = Inl e))"
  by (auto simp: pauseContracts_def js_map_upt Let_def split: sum.splits dest!: Promise_all_Inl_nth)

lemma unpauseContracts_bundle:
  fixes addSig :: "'s add_signature"
  shows "(\<forall>bundle. unpauseContracts addSig this signingKey executorAddress n = Inr bundle \<longleftrightarrow>
          length bundle = length (contractInstancesPausables this)
          \<and> (\<forall>i<length (contractInstancesPausables this).
                addSig (multiSig this)
              \<lparr> req_data = encodeABI (contractInstancesPausables this ! i) Call_unpause, req_signingKey = signingKey,
                req_contractAddress = options_address (contractInstancesPausables this ! i),
                req_executorAddress = executorAddress, req_nonce = n + i \<rparr>
                  = Inr (bundle ! i)))"
  by (auto simp: unpauseContracts_def js_map_upt Let_def Promise_all_Inr_nth split: sum.splits)

lemma unpauseContracts_rejection:
  fixes addSig :: "'s add_signature"
  shows "(\<forall>e. unpauseContracts addSig this signingKey executorAddress n = Inl e \<longrightarrow>
          (\<exists>i<length (contractInstancesPausables this).
                addSig (multiSig this)
              \<lparr> req_data = encodeABI (contractInstancesPausables this ! i) Call_unpause, req_signingKey = signingKey,
                req_contractAddress = options_address (contractInstancesPausables this ! i),
                req_executorAddress = executorAddress, req_nonce = n + i \<rparr>
                  = Inl e))"
  by (auto simp: unpauseContracts_def js_map_upt Let_def split: sum.splits dest!: Promise_all_Inl_nth)

lemma setBootProposer_bundle:
  fixes addSig :: "'s add_signature"
  shows "(\<forall>bundle. setBootProposer addSig this newProposerPrivateKey signingKey executorAddress n = Inr bundle \<longleftrightarrow>
        (\<exists>newProposer v. privateKeyToAccount_address (web3 this) newProposerPrivateKey = Inr newProposer
          \<and> addSig (multiSig this)
              \<lparr> req_data = encodeABI (ci_shield (contractInstances this)) (Call_setBootProposer newProposer), req_signingKey = signingKey,
                req_contractAddress = options_address (ci_shield (contractInstances this)),
                req_executorAddress = executorAddress, req_nonce = n \<rparr>
                = Inr v
          \<and> bundle = [v]))"
  by (auto simp: setBootProposer_def Let_def Promise_all_single_Inr Promise_all_single_Inl split: sum.splits)

lemma setBootProposer_rejection:
  fixes addSig :: "'s add_signature"
  shows "(\<forall>e. setBootProposer addSig this newProposerPrivateKey signingKey executorAddress n = Inl e \<longleftrightarrow>
        privateKeyToAccount_address (web3 this) newProposerPrivateKey = Inl e
        \<or> (\<exists>newProposer. privateKeyToAccount_address (web3 this) newProposerPrivateKey = Inr newProposer
          \<and> addSig (multiSig this)
              \<lparr> req_data = encodeABI (ci_shield (contractInstances this)) (Call_setBootProposer newProposer), req_signingKey = signingKey,
                req_contractAddress = options_address (ci_shield (contractInstances this)),
                req_executorAddress = executorAddress, req_nonce = n \<rparr>
                = Inl e))"
  by (auto simp: setBootProposer_def Let_def Promise_all_single_Inr Promise_all_single_Inl split: sum.splits)

lemma setBootChallenger_bundle:
  fixes addSig :: "'s add_signature"
  shows "(\<forall>bundle. setBootChallenger addSig this newChallengerPrivateKey signingKey executorAddress n = Inr bundle \<longleftrightarrow>
        (\<exists>newChallenger v. privateKeyToAccount_address (web3 this) newChallengerPrivateKey = Inr newChallenger
          \<and> addSig (multiSig this)
              \<lparr> req_data = encodeABI (ci_shield (contractInstances this)) (Call_setBootChallenger newChallenger), req_signingKey = signingKey,
                req_contractAddress = options_address (ci_shield (contractInstances this)),
                req_executorAddress = executorAddress, req_nonce = n \<rparr>
                = Inr v
          \<and> bundle = [v]))"
  by (auto simp: setBootChallenger_def Let_def Promise_all_single_Inr Promise_all_single_Inl split: sum.splits)

lemma setBootChallenger_rejection:
  fixes addSig :: "'s add_signature"
  shows "(\<forall>e. setBootChallenger addSig this newChallengerPrivateKey signingKey executorAddress n = Inl e \<longleftrightarrow>
        privateKeyToAccount_address (web3 this) newChallengerPrivateKey = Inl e
        \<or> (\<exists>newChallenger. privateKeyToAccount_address (web3 this) newChallengerPrivateKey = Inr newChallenger
          \<and> addSig (multiSig this)
              \<lparr> req_data = encodeABI (ci_shield (contractInstances this)) (Call_setBootChallenger newChallenger), req_signingKey = signingKey,
                req_contractAddress = options_address (ci_shield (contractInstances this)),
                req_executorAddress = executorAddress, req_nonce = n \<rparr>
                = Inl e))"
  by (auto simp: setBootChallenger_def Let_def Promise_all_single_Inr Promise_all_single_Inl split: sum.splits)

lemma setMaticAddress_bundle:
  fixes addSig :: "'s add_signature"
  shows "(\<forall>bundle. setMaticAddress addSig this newMaticAddress signingKey executorAddress n = Inr bundle \<longleftrightarrow>
        (\<exists>v. addSig (multiSig this)
              \<lparr> req_data = encodeABI (ci_shield (contractInstances this)) (Call_setMaticAddress newMaticAddress), req_signingKey = signingKey,
                req_contractAddress = options_address (ci_shield (contractInstances this)),
                req_executorAddress = executorAddress, req_nonce = n \<rparr>
                = Inr v
          \<and> bundle = [v]))"
  by (auto simp: setMaticAddress_def Let_def Promise_all_single_Inr Promise_all_single_Inl split: sum.splits)

lemma setMaticAddress_rejection:
  fixes addSig :: "'s add_signature"
  shows "(\<forall>e. setMaticAddress addSig this newMaticAddress signingKey executorAddress n = Inl e \<longleftrightarrow>
        addSig (multiSig this)
              \<lparr> req_data = encodeABI (ci_shield (contractInstances this)) (Call_setMaticAddress newMaticAddress), req_signingKey = signingKey,
                req_contractAddress = options_address (ci_shield (contractInstances this)),
                req_executorAddress = executorAddress, req_nonce = n \<rparr>
                = Inl e)"
  by (auto simp: setMaticAddress_def Let_def Promise_all_single_Inr Promise_all_single_Inl split: sum.splits)

text \<open>
  Claim C2. For each of the eight builders of the class, every target list and every base
  nonce \<open>n\<close> in the range in which JavaScript numbers are exact, the builder returns a bundle
  exactly when every \<^verbatim>\<open>addMultiSigSignature\<close> call it issues fulfils, and the bundle then has
  one entry per target contract, in target-list order: entry \<open>i\<close> is the result of the call
  for the \<open>i\<close>-th target, made with that target's address and encoded data and the nonce
  \<open>n + i\<close>. The five builders that reach the Shield contract alone return one entry, with the
  nonce \<open>n\<close>. A builder that rejects does so with the rejection of one of these calls (or of
  the key conversion that precedes them).
\<close>

theorem bundle_nonces_follow_target_order:
  fixes addSig :: "'s add_signature"
  assumes "n + length (contractInstancesOwnables this) \<le> 2 ^ 53"
    and "n + length (contractInstancesPausables this) \<le> 2 ^ 53"
  shows
  "(\<forall>bundle. transferOwnership addSig this newOwnerPrivateKey signingKey executorAddress n = Inr bundle \<longleftrightarrow>
        (\<exists>newOwner. privateKeyToAccount_address (web3 this) newOwnerPrivateKey = Inr newOwner
          \<and> length bundle = length (contractInstancesOwnables this)
          \<and> (\<forall>i<length (contractInstancesOwnables this).
                addSig (multiSig this)
              \<lparr> req_data = encodeABI (contractInstancesOwnables this ! i) (Call_transferOwnership newOwner), req_signingKey = signingKey,
                req_contractAddress = options_address (contractInstancesOwnables this ! i),
                req_executorAddress = executorAddress, req_nonce = n + i \<rparr>
                  = Inr (bundle ! i))))
   \<and> (\<forall>e. transferOwnership addSig this newOwnerPrivateKey signingKey executorAddress n = Inl e \<longrightarrow>
        privateKeyToAccount_address (web3 this) newOwnerPrivateKey = Inl e
        \<or> (\<exists>newOwner. privateKeyToAccount_address (web3 this) newOwnerPrivateKey = Inr newOwner
          \<and> (\<exists>i<length (contractInstancesOwnables this).
                addSig (multiSig this)
              \<lparr> req_data = encodeABI (contractInstancesOwnables this ! i) (Call_transferOwnership newOwner), req_signingKey = signingKey,
                req_contractAddress = options_address (contractInstancesOwnables this ! i),
                req_executorAddress = executorAddress, req_nonce = n + i \<rparr>
                  = Inl e)))
   \<and> (\<forall>bundle. setTokenRestrictions addSig this tokenAddress depositRestriction withdrawRestriction signingKey executorAddress n = Inr bundle \<longleftrightarrow>
        (\<exists>v. addSig (multiSig this)
              \<lparr> req_data = encodeABI (ci_shield (contractInstances this)) (Call_setRestriction tokenAddress depositRestriction withdrawRestriction), req_signingKey = signingKey,
                req_contractAddress = options_address (ci_shield (contractInstances this)),
                req_executorAddress = executorAddress, req_nonce = n \<rparr>
                = Inr v
          \<and> bundle = [v]))
   \<and> (\<forall>e. setTokenRestrictions addSig this tokenAddress depositRestriction withdrawRestriction signingKey executorAddress n = Inl e \<longleftrightarrow>
        addSig (multiSig this)
              \<lparr> req_data = encodeABI (ci_shield (contractInstances this)) (Call_setRestriction tokenAddress depositRestriction withdrawRestriction), req_signingKey = signingKey,
                req_contractAddress = options_address (ci_shield (contractInstances this)),
                req_executorAddress = executorAddress, req_nonce = n \<rparr>
                = Inl e)
   \<and> (\<forall>bundle. removeTokenRestrictions addSig this tokenAddress signingKey executorAddress n = Inr bundle \<longleftrightarrow>
        (\<exists>v. addSig (multiSig this)
              \<lparr> req_data = encodeABI (ci_shield (contractInstances this)) (Call_removeRestriction tokenAddress), req_signingKey = signingKey,
                req_contractAddress = options_address (ci_shield (contractInstances this)),
                req_executorAddress = executorAddress, req_nonce = n \<rparr>
                = Inr v
          \<and> bundle = [v]))
   \<and> (\<forall>e. removeTokenRestrictions addSig this tokenAddress signingKey executorAddress n = Inl e \<longleftrightarrow>
        addSig (multiSig this)
              \<lparr> req_data = encodeABI (ci_shield (contractInstances this)) (Call_removeRestriction tokenAddress), req_signingKey = signingKey,
                req_contractAddress = options_address (ci_shield (contractInstances this)),
                req_executorAddress = executorAddress, req_nonce = n \<rparr>
                = Inl e)
   \<and> (\<forall>bundle. pauseContracts addSig this signingKey executorAddress n = Inr bundle \<longleftrightarrow>
          length bundle = length (contractInstancesPausables this)
          \<and> (\<forall>i<length (contractInstancesPausables this).
                addSig (multiSig this)
              \<lparr> req_data = encodeABI (contractInstancesPausables this ! i) Call_pause, req_signingKey = signingKey,
                req_contractAddress = options_address (contractInstancesPausables this ! i),
                req_executorAddress = executorAddress, req_nonce = n + i \<rparr>
                  = Inr (bundle ! i)))
   \<and> (\<forall>e. pauseContracts addSig this signingKey executorAddress n = Inl e \<longrightarrow>
          (\<exists>i<length (contractInstancesPausables this).
                addSig (multiSig this)
              \<lparr> req_data = encodeABI (contractInstancesPausables this ! i) Call_pause, req_signingKey = signingKey,
                req_contractAddress = options_address (contractInstancesPausables this ! i),
                req_executorAddress = executorAddress, req_nonce = n + i \<rparr>
                  = Inl e))
   \<and> (\<forall>bundle. unpauseContracts addSig this signingKey executorAddress n = Inr bundle \<longleftrightarrow>
          length bundle = length (contractInstancesPausables this)
          \<and> (\<forall>i<length (contractInstancesPausables this).
                addSig (multiSig this)
              \<lparr> req_data = encodeABI (contractInstancesPausables this ! i) Call_unpause, req_signingKey = signingKey,
                req_contractAddress = options_address (contractInstancesPausables this ! i),
                req_executorAddress = executorAddress, req_nonce = n + i \<rparr>
                  = Inr (bundle ! i)))
   \<and> (\<forall>e. unpauseContracts addSig this signingKey executorAddress n = Inl e \<longrightarrow>
          (\<exists>i<length (contractInstancesPausables this).
                addSig (multiSig this)
              \<lparr> req_data = encodeABI (contractInstancesPausables this ! i) Call_unpause, req_signingKey = signingKey,
                req_contractAddress = options_address (contractInstancesPausables this ! i),
                req_executorAddress = executorAddress, req_nonce = n + i \<rparr>
                  = Inl e))
   \<and> (\<forall>bundle. setBootProposer addSig this newProposerPrivateKey signingKey executorAddress n = Inr bundle \<longleftrightarrow>
        (\<exists>newProposer v. privateKeyToAccount_address (web3 this) newProposerPrivateKey = Inr newProposer
          \<and> addSig (multiSig this)
              \<lparr> req_data = encodeABI (ci_shield (contractInstances this)) (Call_setBootProposer newProposer), req_signingKey = signingKey,
                req_contractAddress = options_address (ci_shield (contractInstances this)),
                req_executorAddress = executorAddress, req_nonce = n \<rparr>
                = Inr v
          \<and> bundle = [v]))
   \<and> (\<forall>e. setBootProposer addSig this newProposerPrivateKey signingKey executorAddress n = Inl e \<longleftrightarrow>
        privateKeyToAccount_address (web3 this) newProposerPrivateKey = Inl e
        \<or> (\<exists>newProposer. privateKeyToAccount_address (web3 this) newProposerPrivateKey = Inr newProposer
          \<and> addSig (multiSig this)
              \<lparr> req_data = encodeABI (ci_shield (contractInstances this)) (Call_setBootProposer newProposer), req_signingKey = signingKey,
                req_contractAddress = options_address (ci_shield (contractInstances this)),
                req_executorAddress = executorAddress, req_nonce = n \<rparr>
                = Inl e))
   \<and> (\<forall>bundle. setBootChallenger addSig this newChallengerPrivateKey signingKey executorAddress n = Inr bundle \<longleftrightarrow>
        (\<exists>newChallenger v. privateKeyToAccount_address (web3 this) newChallengerPrivateKey = Inr newChallenger
          \<and> addSig (multiSig this)
              \<lparr> req_data = encodeABI (ci_shield (contractInstances this)) (Call_setBootChallenger newChallenger), req_signingKey = signingKey,
                req_contractAddress = options_address (ci_shield (contractInstances this)),
                req_executorAddress = executorAddress, req_nonce = n \<rparr>
                = Inr v
          \<and> bundle = [v]))
   \<and> (\<forall>e. setBootChallenger addSig this newChallengerPrivateKey signingKey executorAddress n = Inl e \<longleftrightarrow>
        privateKeyToAccount_address (web3 this) newChallengerPrivateKey = Inl e
        \<or> (\<exists>newChallenger. privateKeyToAccount_address (web3 this) newChallengerPrivateKey = Inr newChallenger
          \<and> addSig (multiSig this)
              \<lparr> req_data = encodeABI (ci_shield (contractInstances this)) (Call_setBootChallenger newChallenger), req_signingKey = signingKey,
                req_contractAddress = options_address (ci_shield (contractInstances this)),
                req_executorAddress = executorAddress, req_nonce = n \<rparr>
                = Inl e))
   \<and> (\<forall>bundle. setMaticAddress addSig this newMaticAddress signingKey executorAddress n = Inr bundle \<longleftrightarrow>
        (\<exists>v. addSig (multiSig this)
              \<lparr> req_data = encodeABI (ci_shield (contractInstances this)) (Call_setMaticAddress newMaticAddress), req_signingKey = signingKey,
                req_contractAddress = options_address (ci_shield (contractInstances this)),
                req_executorAddress = executorAddress, req_nonce = n \<rparr>
                = Inr v
          \<and> bundle = [v]))
   \<and> (\<forall>e. setMaticAddress addSig this newMaticAddress signingKey executorAddress n = Inl e \<longleftrightarrow>
        addSig (multiSig this)
              \<lparr> req_data = encodeABI (ci_shield (contractInstances this)) (Call_setMaticAddress newMaticAddress), req_signingKey = signingKey,
                req_contractAddress = options_address (ci_shield (contractInstances this)),
                req_executorAddress = executorAddress, req_nonce = n \<rparr>
                = Inl e)"
  by (intro conjI)
     (rule transferOwnership_bundle,
      rule transferOwnership_rejection,
      rule setTokenRestrictions_bundle,
      rule setTokenRestrictions_rejection,
      rule removeTokenRestrictions_bundle,
      rule removeTokenRestrictions_rejection,
      rule pauseContracts_bundle,
      rule pauseContracts_rejection,
      rule unpauseContracts_bundle,
      rule unpauseContracts_rejection,
      rule setBootProposer_bundle,
      rule setBootProposer_rejection,
      rule setBootChallenger_bundle,
      rule setBootChallenger_rejection,
      rule setMaticAddress_bundle,
      rule setMaticAddress_rejection)

theorem bundle_nonces_follow_target_order_witness:
  "5 + length (contractInstancesOwnables demo_multisig) \<le> (2 :: nat) ^ 53
   \<and> 5 + length (contractInstancesPausables demo_multisig) \<le> (2 :: nat) ^ 53
   \<and> pauseContracts echo_signature demo_multisig ''key'' ''0xE'' 5 =
     Inr [\<lparr> req_data = ''pause'', req_signingKey = ''key'', req_contractAddress = ''0xA'',
             req_executorAddress = ''0xE'', req_nonce = 5 \<rparr>,
          \<lparr> req_data = ''pause'', req_signingKey = ''key'', req_contractAddress = ''0xB'',
             req_executorAddress = ''0xE'', req_nonce = 6 \<rparr>]
   \<and> length (contractInstancesPausables demo_multisig) = 2"
proof -
  have o: "5 + length (contractInstancesOwnables demo_multisig) \<le> (2 :: nat) ^ 53"
    by (simp add: demo_multisig_def ContractMultiSig_def)
  have p: "5 + length (contractInstancesPausables demo_multisig) \<le> (2 :: nat) ^ 53"
    by (simp add: demo_multisig_def ContractMultiSig_def)
  have k: "length (contractInstancesPausables demo_multisig) = 2"
    by (simp add: demo_multisig_def ContractMultiSig_def)
  have run: "pauseContracts echo_signature demo_multisig ''key'' ''0xE'' 5 =
     Inr [\<lparr> req_data = ''pause'', req_signingKey = ''key'', req_contractAddress = ''0xA'',
             req_executorAddress = ''0xE'', req_nonce = 5 \<rparr>,
          \<lparr> req_data = ''pause'', req_signingKey = ''key'', req_contractAddress = ''0xB'',
             req_executorAddress = ''0xE'', req_nonce = 6 \<rparr>]"
    by (simp add: pauseContracts_def js_map_def echo_signature_def demo_multisig_def
        ContractMultiSig_def demo_instances_def demo_contract_def)
  have all: "\<forall>bundle. pauseContracts echo_signature demo_multisig ''key'' ''0xE'' 5 = Inr bundle \<longleftrightarrow>
          length bundle = length (contractInstancesPausables demo_multisig)
          \<and> (\<forall>i<length (contractInstancesPausables demo_multisig).
                echo_signature (multiSig demo_multisig)
              \<lparr> req_data = encodeABI (contractInstancesPausables demo_multisig ! i) Call_pause, req_signingKey = ''key'',
                req_contractAddress = options_address (contractInstancesPausables demo_multisig ! i),
                req_executorAddress = ''0xE'', req_nonce = 5 + i \<rparr>
                  = Inr (bundle ! i))"
    using bundle_nonces_follow_target_order
      [OF o p, of echo_signature "''new''" "''key''" "''0xE''" "''token''" 1 2 "''proposer''"
        "''challenger''" "''matic''"]
    by (-) (elim conjE, assumption)
  have "length [\<lparr> req_data = ''pause'', req_signingKey = ''key'', req_contractAddress = ''0xA'',
             req_executorAddress = ''0xE'', req_nonce = 5 \<rparr>,
          \<lparr> req_data = ''pause'', req_signingKey = ''key'', req_contractAddress = ''0xB'',
             req_executorAddress = ''0xE'', req_nonce = (6 :: nat) \<rparr>]
        = length (contractInstancesPausables demo_multisig)"
    using run all by (simp only:)
  with o p run k show ?thesis by (simp only: simp_thms)
qed

text \<open>
  Claim C8. The constructor fixes the target sets: the pausable contracts are Shield and State,
  the ownable contracts are Shield, State, Proposers and Challenges, in that order. Pausing and
  unpausing issue one call for each pausable contract and a transfer of ownership one call for
  each ownable contract, in the order of declaration.
\<close>

theorem targets_fixed_by_constructor:
  fixes addSig :: "'s add_signature"
  shows
  "contractInstancesPausables (ContractMultiSig w ci t c g) = [ci_shield ci, ci_state ci]
   \<and> contractInstancesOwnables (ContractMultiSig w ci t c g)
       = [ci_shield ci, ci_state ci, ci_proposers ci, ci_challenges ci]
   \<and> pauseContracts addSig (ContractMultiSig w ci t c g) sk ea n =
       Promise_all
         [addSig (multiSig (ContractMultiSig w ci t c g))
            \<lparr> req_data = encodeABI (ci_shield ci) Call_pause, req_signingKey = sk,
              req_contractAddress = options_address (ci_shield ci),
              req_executorAddress = ea, req_nonce = n \<rparr>,
          addSig (multiSig (ContractMultiSig w ci t c g))
            \<lparr> req_data = encodeABI (ci_state ci) Call_pause, req_signingKey = sk,
              req_contractAddress = options_address (ci_state ci),
              req_executorAddress = ea, req_nonce = n + 1 \<rparr>]
   \<and> unpauseContracts addSig (ContractMultiSig w ci t c g) sk ea n =
       Promise_all
         [addSig (multiSig (ContractMultiSig w ci t c g))
            \<lparr> req_data = encodeABI (ci_shield ci) Call_unpause, req_signingKey = sk,
              req_contractAddress = options_address (ci_shield ci),
              req_executorAddress = ea, req_nonce = n \<rparr>,
          addSig (multiSig (ContractMultiSig w ci t c g))
            \<lparr> req_data = encodeABI (ci_state ci) Call_unpause, req_signingKey = sk,
              req_contractAddress = options_address (ci_state ci),
              req_executorAddress = ea, req_nonce = n + 1 \<rparr>]
   \<and> transferOwnership addSig (ContractMultiSig w ci t c g) pk sk ea n =
       (case privateKeyToAccount_address w pk of
          Inl e \<Rightarrow> Inl e
        | Inr newOwner \<Rightarrow>
            Promise_all
              [addSig (multiSig (ContractMultiSig w ci t c g))
                 \<lparr> req_data = encodeABI (ci_shield ci) (Call_transferOwnership newOwner),
                   req_signingKey = sk, req_contractAddress = options_address (ci_shield ci),
                   req_executorAddress = ea, req_nonce = n \<rparr>,
               addSig (multiSig (ContractMultiSig w ci t c g))
                 \<lparr> req_data = encodeABI (ci_state ci) (Call_transferOwnership newOwner),
                   req_signingKey = sk, req_contractAddress = options_address (ci_state ci),
                   req_executorAddress = ea, req_nonce = n + 1 \<rparr>,
               addSig (multiSig (ContractMultiSig w ci t c g))
                 \<lparr> req_data = encodeABI (ci_proposers ci) (Call_transferOwnership newOwner),
                   req_signingKey = sk, req_contractAddress = options_address (ci_proposers ci),
                   req_executorAddress = ea, req_nonce = n + 2 \<rparr>,
               addSig (multiSig (ContractMultiSig w ci t c g))
                 \<lparr> req_data = encodeABI (ci_challenges ci) (Call_transferOwnership newOwner),
                   req_signingKey = sk, req_contractAddress = options_address (ci_challenges ci),
                   req_executorAddress = ea, req_nonce = n + 3 \<rparr>])"
  by (simp add: ContractMultiSig_def pauseContracts_def unpauseContracts_def
      transferOwnership_def js_map_def Let_def eval_nat_numeral split: sum.splits)

theorem targets_fixed_by_constructor_witness:
  "map req_contractAddress
     (projr (pauseContracts echo_signature (ContractMultiSig demo_web3 demo_instances 2 1337 4000000)
        ''key'' ''0xE'' 5)) = [''0xA'', ''0xB'']
   \<and> map req_contractAddress
     (projr (transferOwnership echo_signature (ContractMultiSig demo_web3 demo_instances 2 1337 4000000)
        ''new'' ''key'' ''0xE'' 5)) = [''0xA'', ''0xB'', ''0xC'', ''0xD'']"
  using targets_fixed_by_constructor
    [of demo_web3 demo_instances 2 1337 4000000 echo_signature "''key''" "''0xE''" 5 "''new''"]
  by (simp add: echo_signature_def demo_instances_def demo_contract_def demo_web3_def)


section \<open>Properties of the Nf3 nonce management\<close>

text \<open>
  Claim C4. With no nonce held (\<open>nonce = 0\<close>) the critical section reads the transaction count
  from the chain and builds the transaction with the value read; with a nonce held it builds the
  transaction with the held nonce and makes no read at all (the log of reads is unchanged). In
  both cases the nonce kept afterwards is the nonce used plus one.
\<close>

theorem nonce_allocation_cached_or_chain:
  fixes w :: "'r nf3_web3"
  shows
  "(nonce this \<noteq> 0 \<longrightarrow>
      nonce_critical_section w unsignedTransaction contractAddress fee this reads
        = (Inr \<lparr> tx_from = ethereumAddress this, tx_to = contractAddress,
                  tx_data = unsignedTransaction, tx_value = fee, tx_gas = 10000000,
                  tx_gasPrice = 10000000000, tx_nonce = nonce this \<rparr>,
           this\<lparr>nonce := nonce this + 1\<rparr>, reads))
   \<and> (nonce this = 0 \<longrightarrow>
        getTransactionCount w reads (ethereumAddress this) = Inr n \<longrightarrow>
        getTransactionCount w (reads @ [ethereumAddress this]) (ethereumAddress this) = Inr logged \<longrightarrow>
      nonce_critical_section w unsignedTransaction contractAddress fee this reads
        = (Inr \<lparr> tx_from = ethereumAddress this, tx_to = contractAddress,
                  tx_data = unsignedTransaction, tx_value = fee, tx_gas = 10000000,
                  tx_gasPrice = 10000000000, tx_nonce = n \<rparr>,
           this\<lparr>nonce := n + 1\<rparr>, reads @ [ethereumAddress this, ethereumAddress this]))"
  by (simp add: nonce_critical_section_def Let_def)

theorem nonce_allocation_cached_or_chain_witness:
  "nonce demo_nf3 \<noteq> 0
   \<and> nonce_critical_section demo_chain ''data'' (Some ''0xA'') 10 demo_nf3 []
       = (Inr \<lparr> tx_from = Some (Account ''addr-of-old''), tx_to = Some ''0xA'',
                 tx_data = ''data'', tx_value = 10, tx_gas = 10000000,
                 tx_gasPrice = 10000000000, tx_nonce = 42 \<rparr>,
          demo_nf3\<lparr>nonce := 43\<rparr>, [])
   \<and> nonce (demo_nf3\<lparr>nonce := 0\<rparr>) = 0
   \<and> nonce_critical_section demo_chain ''data'' (Some ''0xA'') 10 (demo_nf3\<lparr>nonce := 0\<rparr>) []
       = (Inr \<lparr> tx_from = Some (Account ''addr-of-old''), tx_to = Some ''0xA'',
                 tx_data = ''data'', tx_value = 10, tx_gas = 10000000,
                 tx_gasPrice = 10000000000, tx_nonce = 7 \<rparr>,
          demo_nf3\<lparr>nonce := 8\<rparr>,
          [Some (Account ''addr-of-old''), Some (Account ''addr-of-old'')])"
  using nonce_allocation_cached_or_chain
      [of demo_nf3 demo_chain "''data''" "Some ''0xA''" 10 "[]" 7 7]
    nonce_allocation_cached_or_chain
      [of "demo_nf3\<lparr>nonce := 0\<rparr>" demo_chain "''data''" "Some ''0xA''" 10 "[]" 7 7]
  by (simp add: demo_nf3_def demo_chain_def)

text \<open>
  The sequential case. When \<^verbatim>\<open>setEthereumSigningKey(key)\<close> returns and no call of
  \<^verbatim>\<open>submitTransaction\<close> is under way, the object holds the nonce 0 and the address of the
  new key, and the critical section of the next \<^verbatim>\<open>submitTransaction\<close> starts with a read
  of the transaction count for the new address.
\<close>

lemma sequential_key_change_reads_chain:
  fixes w :: "'r nf3_web3"
  assumes "setEthereumSigningKey w key this = (Inr (), this')"
  shows "nonce this' = 0
    \<and> ethereumSigningKey this' = Some key
    \<and> getAccounts w this' = Inr (the (ethereumAddress this')) \<and> ethereumAddress this' \<noteq> None
    \<and> nonce_critical_section w u c f this' reads =
        (case getTransactionCount w reads (ethereumAddress this') of
           Inl e \<Rightarrow> (Inl e, this', reads @ [ethereumAddress this'])
         | Inr n \<Rightarrow>
            (case getTransactionCount w (reads @ [ethereumAddress this']) (ethereumAddress this') of
               Inl e \<Rightarrow> (Inl e, this'\<lparr>nonce := n\<rparr>,
                          reads @ [ethereumAddress this', ethereumAddress this'])
             | Inr logged \<Rightarrow>
                 (Inr \<lparr> tx_from = ethereumAddress this', tx_to = c, tx_data = u, tx_value = f,
                         tx_gas = 10000000, tx_gasPrice = 10000000000, tx_nonce = n \<rparr>,
                  this'\<lparr>nonce := n + 1\<rparr>,
                  reads @ [ethereumAddress this', ethereumAddress this'])))
    \<and> take (Suc (length reads)) (snd (snd (submitTransaction w u co fo this' reads)))
        = reads @ [ethereumAddress this']"
proof -
  from assms obtain address where
    acc: "getAccounts w (this\<lparr>ethereumSigningKey := Some key\<rparr>) = Inr address"
    and this': "this' = this\<lparr>ethereumSigningKey := Some key, ethereumAddress := Some address,
                            nonce := 0\<rparr>"
    by (auto simp: setEthereumSigningKey_def Let_def split: sum.splits)
  have key: "ethereumSigningKey this' = Some key" and zero: "nonce this' = 0"
    and addr: "ethereumAddress this' = Some address"
    by (simp_all add: this')
  have acc': "getAccounts w this' = Inr address"
    using acc by (simp add: getAccounts_def this')
  have cs: "nonce_critical_section w u c f this' reads =
        (case getTransactionCount w reads (ethereumAddress this') of
           Inl e \<Rightarrow> (Inl e, this', reads @ [ethereumAddress this'])
         | Inr n \<Rightarrow>
            (case getTransactionCount w (reads @ [ethereumAddress this']) (ethereumAddress this') of
               Inl e \<Rightarrow> (Inl e, this'\<lparr>nonce := n\<rparr>,
                          reads @ [ethereumAddress this', ethereumAddress this'])
             | Inr logged \<Rightarrow>
                 (Inr \<lparr> tx_from = ethereumAddress this', tx_to = c, tx_data = u, tx_value = f,
                         tx_gas = 10000000, tx_gasPrice = 10000000000, tx_nonce = n \<rparr>,
                  this'\<lparr>nonce := n + 1\<rparr>,
                  reads @ [ethereumAddress this', ethereumAddress this'])))" for u c f
    using zero by (simp add: nonce_critical_section_def Let_def split: sum.splits)
  have sub: "take (Suc (length reads)) (snd (snd (submitTransaction w u co fo this' reads)))
        = reads @ [ethereumAddress this']"
    unfolding submitTransaction_def Let_def cs
    by (simp split: sum.splits option.splits list.splits)
  show ?thesis using key zero addr acc' cs sub by simp
qed

text \<open>
  Claim C10. The setter writes \<^verbatim>\<open>this.nonce\<close> outside \<^verbatim>\<open>nonceMutex\<close>, and after the
  call of \<^verbatim>\<open>getAccounts\<close>. When the key is changed while a call of
  \<^verbatim>\<open>submitTransaction\<close> awaits its read, the pending read, made for the old address, stores
  its answer 7 over the 0 of the setter: that call builds its transaction from the new address
  with nonce 7, and the first call made after the key change finds the nonce 8, makes no read
  and uses 8. When \<^verbatim>\<open>getAccounts\<close> throws for the new key, the key has been changed and the
  nonce 42 held for the old key is kept: the next critical section reads nothing and builds its
  transaction with nonce 42.
\<close>

theorem key_change_reuses_cached_nonce:
  "observe (object_run key_change_schedule (initial_object 0 (Some (Account ''addr-of-old''))))
     = Some ([(0, Some (Account ''addr-of-old'')), (0, Some (Account ''addr-of-new''))],
             [(0, Some (Account ''addr-of-new''), 7), (1, Some (Account ''addr-of-new''), 8)],
             9)
   \<and> setEthereumSigningKey picky_chain ''not-a-key'' demo_nf3
       = (Inl (JsError ''Private key must be 32 bytes long''),
          demo_nf3\<lparr>ethereumSigningKey := Some ''not-a-key''\<rparr>)
   \<and> nonce_critical_section picky_chain ''data'' (Some ''0xA'') 10
        (demo_nf3\<lparr>ethereumSigningKey := Some ''not-a-key''\<rparr>) []
       = (Inr \<lparr> tx_from = Some (Account ''addr-of-old''), tx_to = Some ''0xA'',
                 tx_data = ''data'', tx_value = 10, tx_gas = 10000000,
                 tx_gasPrice = 10000000000, tx_nonce = 42 \<rparr>,
          demo_nf3\<lparr>ethereumSigningKey := Some ''not-a-key'', nonce := 43\<rparr>,
          [])"
proof -
  have run: "observe (object_run key_change_schedule
                (initial_object 0 (Some (Account ''addr-of-old''))))
     = Some ([(0, Some (Account ''addr-of-old'')), (0, Some (Account ''addr-of-new''))],
             [(0, Some (Account ''addr-of-new''), 7), (1, Some (Account ''addr-of-new''), 8)],
             9)"
    by (simp add: observe_def key_change_schedule_def initial_object_def initial_process_def)
  have set: "setEthereumSigningKey picky_chain ''not-a-key'' demo_nf3
       = (Inl (JsError ''Private key must be 32 bytes long''),
          demo_nf3\<lparr>ethereumSigningKey := Some ''not-a-key''\<rparr>)"
    by (simp add: setEthereumSigningKey_def getAccounts_def picky_chain_def demo_nf3_def Let_def)
  have cs: "nonce_critical_section picky_chain ''data'' (Some ''0xA'') 10
        (demo_nf3\<lparr>ethereumSigningKey := Some ''not-a-key''\<rparr>) []
       = (Inr \<lparr> tx_from = Some (Account ''addr-of-old''), tx_to = Some ''0xA'',
                 tx_data = ''data'', tx_value = 10, tx_gas = 10000000,
                 tx_gasPrice = 10000000000, tx_nonce = 42 \<rparr>,
          demo_nf3\<lparr>ethereumSigningKey := Some ''not-a-key'', nonce := 43\<rparr>,
          [])"
    by (simp add: nonce_critical_section_def demo_nf3_def Let_def)
  from run set cs show ?thesis by (intro conjI)
qed


section \<open>Properties of the administrator's control loop\<close>

lemma executions_append: "executions (es @ fs) = executions es @ executions fs"
  by (induction es rule: executions.induct) simp_all

text \<open>
  Claim C1. The gate in front of the execution passes an approval exactly when the number of
  its signed transactions equals the threshold. With a threshold of 2 and three signed
  transactions the gate is closed and the loop executes nothing, although the threshold is
  exceeded.
\<close>

theorem gate_closed_above_threshold:
  "threshold_reached T approval = (\<exists>signed. approval = Some signed \<and> length signed = T)
   \<and> threshold_reached 2 (Some [a, b, c]) = False
   \<and> execute_approved env 2 executor [Some [a, b, c]] s = (Inr executor, s)"
  by (auto simp: threshold_reached_def split: option.splits)

text \<open>
  Behind the gate the loop is sequential. When every approval passes the gate, the loop
  executes the approvals in the order of the list, each with its first \<open>T\<close> signatures, and
  starts an execution only after \<^verbatim>\<open>executeMultiSigTransaction\<close> has fulfilled for every
  earlier one: the executions added to the trace are those of a prefix of the list, all
  fulfilled, followed at most by one rejected execution, after which nothing is executed.
\<close>

lemma executions_follow_gate_order:
  fixes env :: "('w, 't) admin_env"
  assumes "list_all (threshold_reached T) approved"
    and "execute_approved env T executor approved s = (r, s')"
  shows "(\<exists>k\<le>length approved.
            executions (snd s')
              = executions (snd s) @ map (\<lambda>a. (take T (the a), None)) (take k approved)
          \<and> (\<forall>x. r = Inr x \<longrightarrow> k = length approved))
       \<or> (\<exists>k<length approved. \<exists>e. r = Inl e
          \<and> executions (snd s')
              = executions (snd s) @ map (\<lambda>a. (take T (the a), None)) (take k approved)
                  @ [(take T (the (approved ! k)), Some e)])"
  using assms
proof (induction approved arbitrary: executor s)
  case Nil
  then show ?case by auto
next
  case (Cons a approved)
  from Cons.prems have ready: "threshold_reached T a"
    and rest: "list_all (threshold_reached T) approved"
    by simp_all
  obtain q s1 where ask:
    "(if executor_is_falsy executor then call_askQuestions_executor env s
      else (Inr executor, s)) = (q, s1)"
    by (cases "(if executor_is_falsy executor then call_askQuestions_executor env s
                else (Inr executor, s))")
  have tr1: "executions (snd s1) = executions (snd s)"
    using ask
    by (auto simp: call_askQuestions_executor_def executions_append split: if_splits prod.splits)
  show ?case
  proof (cases q)
    case (Inl e)
    with Cons.prems ready ask have "r = Inl e" "s' = s1" by auto
    then have "executions (snd s')
        = executions (snd s) @ map (\<lambda>a. (take T (the a), None)) (take 0 (a # approved))"
      using tr1 by simp
    then show ?thesis using \<open>r = Inl e\<close> by (intro disjI1 exI[of _ 0]) simp
  next
    case (Inr executor1)
    obtain x s2 where ex:
      "call_executeMultiSigTransaction env (take T (the a)) executor1
         (logger_info (Log_text ''Executing multisig transaction'') s1) = (x, s2)"
      by (cases "call_executeMultiSigTransaction env (take T (the a)) executor1
                   (logger_info (Log_text ''Executing multisig transaction'') s1)")
    have tr2: "executions (snd s2) = executions (snd s) @ [(take T (the a), x)]"
      using ex tr1
      by (auto simp: call_executeMultiSigTransaction_def logger_info_def executions_append
          split: prod.splits)
    show ?thesis
    proof (cases x)
      case (Some e)
      with Cons.prems ready ask Inr ex have "r = Inl e" "s' = s2" by auto
      then show ?thesis using tr2 Some
        by (intro disjI2 exI[of _ 0]) simp
    next
      case None
      with Cons.prems ready ask Inr ex
      have run: "execute_approved env T executor1 approved s2 = (r, s')" by auto
      from Cons.IH [OF rest run] show ?thesis
      proof
        assume "\<exists>k\<le>length approved.
            executions (snd s')
              = executions (snd s2) @ map (\<lambda>a. (take T (the a), None)) (take k approved)
          \<and> (\<forall>x. r = Inr x \<longrightarrow> k = length approved)"
        then obtain k where "k \<le> length approved"
          "executions (snd s')
             = executions (snd s2) @ map (\<lambda>a. (take T (the a), None)) (take k approved)"
          "\<forall>x. r = Inr x \<longrightarrow> k = length approved" by blast
        then show ?thesis using tr2 None
          by (intro disjI1 exI[of _ "Suc k"]) simp
      next
        assume "\<exists>k<length approved. \<exists>e. r = Inl e
          \<and> executions (snd s')
              = executions (snd s2) @ map (\<lambda>a. (take T (the a), None)) (take k approved)
                  @ [(take T (the (approved ! k)), Some e)]"
        then obtain k e where "k < length approved" "r = Inl e"
          "executions (snd s')
             = executions (snd s2) @ map (\<lambda>a. (take T (the a), None)) (take k approved)
                 @ [(take T (the (approved ! k)), Some e)]" by blast
        then show ?thesis using tr2 None
          by (intro disjI2 exI[of _ "Suc k"]) simp
      qed
    qed
  qed
qed

lemma execute_approved_skips:
  "\<not> threshold_reached T approval \<Longrightarrow>
     execute_approved env T executor (approval # rest) s = execute_approved env T executor rest s"
  by simp

text \<open>
  Claim C5. The execution loop stands behind the gate \<open>threshold_reached\<close>, which is closed
  for a call that holds more signatures than the threshold. At threshold 2, the operator adds a
  bundle after which the first call holds three signatures and the second call two, so both
  calls are ready in the sense of the claim. \<^verbatim>\<open>start\<close> skips the first call and executes the
  second: the only execution in the trace is that of the second call, which is attempted
  although the first call was never submitted.
\<close>

theorem execution_skips_call_above_threshold:
  "start two_call_admin_env 2 add_answers ((), [])
     = (Inr [Some [''c1'', ''c2'', ''c3''], Some [''d1'', ''d2'']],
        ((), [Ev_addSignedTransaction ''c3'' (Inr [''c1'', ''c2'', ''c3'']),
              Ev_addSignedTransaction ''d2'' (Inr [''d1'', ''d2'']),
              Ev_askQuestions_executor (Inr (Some ''executor-key'')),
              Ev_logger_info (Log_text ''Executing multisig transaction''),
              Ev_executeMultiSigTransaction [''d1'', ''d2''] (Some ''executor-key'') None,
              Ev_connection_close]))
   \<and> executions (snd (snd (start two_call_admin_env 2 add_answers ((), []))))
       = [([''d1'', ''d2''], None)]
   \<and> execute_approved demo_admin_env 2 None
        [Some [''c1'', ''c2'', ''c3''], Some [''d1'', ''d2'']] ((), [])
       = (Inr (Some ''executor-key''),
          ((), [Ev_askQuestions_executor (Inr (Some ''executor-key'')),
                Ev_logger_info (Log_text ''Executing multisig transaction''),
                Ev_executeMultiSigTransaction [''d1'', ''d2''] (Some ''executor-key'') None]))"
proof -
  have run: "start two_call_admin_env 2 add_answers ((), [])
     = (Inr [Some [''c1'', ''c2'', ''c3''], Some [''d1'', ''d2'']],
        ((), [Ev_addSignedTransaction ''c3'' (Inr [''c1'', ''c2'', ''c3'']),
              Ev_addSignedTransaction ''d2'' (Inr [''d1'', ''d2'']),
              Ev_askQuestions_executor (Inr (Some ''executor-key'')),
              Ev_logger_info (Log_text ''Executing multisig transaction''),
              Ev_executeMultiSigTransaction [''d1'', ''d2''] (Some ''executor-key'') None,
              Ev_connection_close]))"
    by (simp add: start_def create_workflow_def add_workflow_def get_nonce_workflow_def
        call_addSignedTransaction_def connection_close_def add_answers_def get_nonce_answers_def
        threshold_reached_def executor_is_falsy_def call_askQuestions_executor_def
        call_executeMultiSigTransaction_def logger_info_def
        two_call_admin_env_def demo_admin_env_def)
  have loop: "execute_approved demo_admin_env 2 None
        [Some [''c1'', ''c2'', ''c3''], Some [''d1'', ''d2'']] ((), [])
       = (Inr (Some ''executor-key''),
          ((), [Ev_askQuestions_executor (Inr (Some ''executor-key'')),
                Ev_logger_info (Log_text ''Executing multisig transaction''),
                Ev_executeMultiSigTransaction [''d1'', ''d2''] (Some ''executor-key'') None]))"
    by (simp add: threshold_reached_def executor_is_falsy_def call_askQuestions_executor_def
        call_executeMultiSigTransaction_def logger_info_def demo_admin_env_def)
  show ?thesis
    unfolding run using loop by simp
qed

text \<open>
  Claim C9, as the code has it. In the \<^verbatim>\<open>get nonce\<close> workflow with no nonce given, a failure
  to reach the contract or to read its nonce is caught and logged as an error; \<^verbatim>\<open>start\<close>
  does not fail: it executes nothing, closes the connection and returns the empty list of
  approvals. The contract is asked for once and the nonce is read at most once.
\<close>

theorem nonce_read_failure_is_logged:
  fixes env :: "('w, 't) admin_env"
  assumes "ans_workflow a = ''get nonce''" and "nonce_is_falsy (ans_nonce a)"
  shows "(waitForContract env ''SimpleMultiSig'' (fst s) = (Some e, w1) \<longrightarrow>
            start env T a s
              = (Inr [], (w1, snd s @ [Ev_waitForContract ''SimpleMultiSig'' (Some e),
                                        Ev_logger_error (Log_could_not_get_nonce e),
                                        Ev_connection_close])))
       \<and> (waitForContract env ''SimpleMultiSig'' (fst s) = (None, w1) \<longrightarrow>
            nonce_call env w1 = (Inl e, w2) \<longrightarrow>
            start env T a s
              = (Inr [], (w2, snd s @ [Ev_waitForContract ''SimpleMultiSig'' None,
                                        Ev_nonce_call (Inl e),
                                        Ev_logger_error (Log_could_not_get_nonce e),
                                        Ev_connection_close])))"
proof -
  have create: "create_workflow env a s = (Inr [], s)"
    using assms(1) by (simp add: create_workflow_def)
  have add: "add_workflow env a [] s = (Inr [], s)"
    using assms(1) by (simp add: add_workflow_def)
  have start: "start env T a s = (Inr [], connection_close (get_nonce_workflow env a s))"
    by (simp add: start_def create add)
  show ?thesis
    unfolding start
    using assms
    by (simp add: get_nonce_workflow_def get_nonce_try_def call_waitForContract_def
        call_nonce_def logger_error_def connection_close_def)
qed

theorem nonce_read_failure_is_logged_witness:
  "ans_workflow get_nonce_answers = ''get nonce'' \<and> nonce_is_falsy (ans_nonce get_nonce_answers)
   \<and> waitForContract offline_admin_env ''SimpleMultiSig'' ()
       = (Some (JsError ''connection not open''), ())
   \<and> start offline_admin_env 2 get_nonce_answers ((), [])
       = (Inr [], ((), [Ev_waitForContract ''SimpleMultiSig'' (Some (JsError ''connection not open'')),
                        Ev_logger_error (Log_could_not_get_nonce (JsError ''connection not open'')),
                        Ev_connection_close]))"
proof -
  have w: "ans_workflow get_nonce_answers = ''get nonce''"
    by (simp add: get_nonce_answers_def)
  have n: "nonce_is_falsy (ans_nonce get_nonce_answers)"
    by (simp add: get_nonce_answers_def nonce_is_falsy_def)
  have off: "waitForContract offline_admin_env ''SimpleMultiSig'' ()
       = (Some (JsError ''connection not open''), ())"
    by (simp add: offline_admin_env_def)
  show ?thesis
    using w n off
      nonce_read_failure_is_logged [OF w n, of offline_admin_env "((), [])"
        "JsError ''connection not open''" "()" 2]
    by simp
qed

text \<open>
  The claim as the specification states it fails: with the chain out of reach, \<^verbatim>\<open>start\<close>
  returns normally with the empty list of approvals, and the error is in the log only.
\<close>

theorem nonce_read_failure_not_surfaced:
  "start offline_admin_env 2 get_nonce_answers ((), [])
     = (Inr [], ((), [Ev_waitForContract ''SimpleMultiSig'' (Some (JsError ''connection not open'')),
                      Ev_logger_error (Log_could_not_get_nonce (JsError ''connection not open'')),
                      Ev_connection_close]))"
  by (simp add: start_def create_workflow_def add_workflow_def get_nonce_workflow_def
      get_nonce_try_def call_waitForContract_def logger_error_def connection_close_def
      nonce_is_falsy_def get_nonce_answers_def offline_admin_env_def demo_admin_env_def)

lemma additions_append: "additions (es @ fs) = additions es @ additions fs"
  by (induction es rule: additions.induct) simp_all

lemma add_transactions_trace:
  fixes env :: "('w, 't) admin_env"
  assumes "add_transactions env txs approvals s = (r, s')"
  shows "((\<exists>a. r = Inr a) \<and> additions (snd s') = additions (snd s) @ map (\<lambda>tx. (tx, None)) txs)
       \<or> (\<exists>k<length txs. \<exists>e. r = Inl e
          \<and> additions (snd s')
              = additions (snd s) @ map (\<lambda>tx. (tx, None)) (take k txs) @ [(txs ! k, Some e)])"
  using assms
proof (induction txs arbitrary: approvals s)
  case Nil
  then show ?case by auto
next
  case (Cons tx txs)
  obtain q s1 where call: "call_addSignedTransaction env tx s = (q, s1)"
    by (cases "call_addSignedTransaction env tx s")
  show ?case
  proof (cases q)
    case (Inl e)
    with Cons.prems call have "r = Inl e" "s' = s1" by simp_all
    moreover have "additions (snd s1) = additions (snd s) @ [(tx, Some e)]"
      using call Inl
      by (auto simp: call_addSignedTransaction_def additions_append split: prod.splits)
    ultimately show ?thesis by (intro disjI2 exI[of _ 0]) simp
  next
    case (Inr res)
    with Cons.prems call
    have run: "add_transactions env txs (Some res) s1 = (r, s')" by simp
    have tr: "additions (snd s1) = additions (snd s) @ [(tx, None)]"
      using call Inr
      by (auto simp: call_addSignedTransaction_def additions_append split: prod.splits)
    from Cons.IH [OF run] show ?thesis
    proof
      assume "(\<exists>a. r = Inr a)
          \<and> additions (snd s') = additions (snd s1) @ map (\<lambda>tx. (tx, None)) txs"
      then show ?thesis using tr by simp
    next
      assume "\<exists>k<length txs. \<exists>e. r = Inl e
          \<and> additions (snd s')
              = additions (snd s1) @ map (\<lambda>tx. (tx, None)) (take k txs) @ [(txs ! k, Some e)]"
      then obtain k e where "k < length txs" "r = Inl e"
        "additions (snd s')
           = additions (snd s1) @ map (\<lambda>tx. (tx, None)) (take k txs) @ [(txs ! k, Some e)]"
        by blast
      then show ?thesis using tr
        by (intro disjI2 exI[of _ "Suc k"]) simp
    qed
  qed
qed

lemma add_verified_trace:
  fixes env :: "('w, 't) admin_env"
  assumes "add_verified env verified approved s = (r, s')"
  shows "((\<exists>a. r = Inr a)
          \<and> additions (snd s') = additions (snd s) @ map (\<lambda>tx. (tx, None)) (concat verified))
       \<or> (\<exists>k<length (concat verified). \<exists>e. r = Inl e
          \<and> additions (snd s')
              = additions (snd s) @ map (\<lambda>tx. (tx, None)) (take k (concat verified))
                  @ [(concat verified ! k, Some e)])"
  using assms
proof (induction verified arbitrary: approved s)
  case Nil
  then show ?case by auto
next
  case (Cons txs rest)
  obtain q s1 where inner: "add_transactions env txs None s = (q, s1)"
    by (cases "add_transactions env txs None s")
  from add_transactions_trace [OF inner] show ?case
  proof
    assume ok: "(\<exists>a. q = Inr a)
        \<and> additions (snd s1) = additions (snd s) @ map (\<lambda>tx. (tx, None)) txs"
    then obtain approvals where q: "q = Inr approvals" by blast
    with Cons.prems inner
    have run: "add_verified env rest (approved @ [approvals]) s1 = (r, s')" by simp
    from Cons.IH [OF run] show ?thesis
    proof
      assume "(\<exists>a. r = Inr a)
          \<and> additions (snd s') = additions (snd s1) @ map (\<lambda>tx. (tx, None)) (concat rest)"
      then show ?thesis using ok by simp
    next
      assume "\<exists>k<length (concat rest). \<exists>e. r = Inl e
          \<and> additions (snd s')
              = additions (snd s1) @ map (\<lambda>tx. (tx, None)) (take k (concat rest))
                  @ [(concat rest ! k, Some e)]"
      then obtain k e where "k < length (concat rest)" "r = Inl e"
        "additions (snd s')
           = additions (snd s1) @ map (\<lambda>tx. (tx, None)) (take k (concat rest))
               @ [(concat rest ! k, Some e)]"
        by blast
      then show ?thesis using ok
        by (intro disjI2 exI[of _ "length txs + k"]) (simp add: nth_append)
    qed
  next
    assume "\<exists>k<length txs. \<exists>e. q = Inl e
        \<and> additions (snd s1)
            = additions (snd s) @ map (\<lambda>tx. (tx, None)) (take k txs) @ [(txs ! k, Some e)]"
    then obtain k e where k: "k < length txs" "q = Inl e"
      "additions (snd s1)
         = additions (snd s) @ map (\<lambda>tx. (tx, None)) (take k txs) @ [(txs ! k, Some e)]"
      by blast
    with Cons.prems inner have "r = Inl e" "s' = s1" by simp_all
    then show ?thesis using k
      by (intro disjI2 exI[of _ k]) (simp add: nth_append)
  qed
qed

text \<open>
  Claim C7, as the code has it. The \<^verbatim>\<open>add\<close> workflow handles a failure for the batch as
  a whole. When \<^verbatim>\<open>verifyTransactions\<close> returns a falsy value nothing of the batch is added;
  when it throws, \<^verbatim>\<open>start\<close> rejects. Otherwise the signatures it returned are passed to
  \<^verbatim>\<open>addSignedTransaction\<close> in batch order, and the first rejection ends the merge: the
  signatures before it have been added, none after it is, and \<^verbatim>\<open>start\<close> rejects with that
  error. Every signature of the batch is added only when no call rejects.
\<close>

theorem add_stops_at_first_rejection:
  fixes env :: "('w, 't) admin_env"
  assumes "ans_workflow a = ''add''"
  shows "(verifyTransactions env (ans_signedTx a) = Inr None \<longrightarrow>
            add_workflow env a approved s = (Inr approved, s))
       \<and> (\<forall>e. verifyTransactions env (ans_signedTx a) = Inl e \<longrightarrow>
            add_workflow env a approved s = (Inl e, s))
       \<and> (\<forall>verified r s'. verifyTransactions env (ans_signedTx a) = Inr (Some verified) \<longrightarrow>
            add_workflow env a approved s = (r, s') \<longrightarrow>
            ((\<exists>approved'. r = Inr approved')
              \<and> additions (snd s')
                  = additions (snd s) @ map (\<lambda>tx. (tx, None)) (concat verified))
            \<or> (\<exists>k<length (concat verified). \<exists>e. r = Inl e
              \<and> additions (snd s')
                  = additions (snd s) @ map (\<lambda>tx. (tx, None)) (take k (concat verified))
                      @ [(concat verified ! k, Some e)]))
       \<and> (\<forall>e s'. add_workflow env a [] s = (Inl e, s') \<longrightarrow> start env T a s = (Inl e, s'))"
proof -
  have create: "create_workflow env a s = (Inr [], s)"
    using assms by (simp add: create_workflow_def)
  have rejects: "start env T a s = (Inl e, s')" if "add_workflow env a [] s = (Inl e, s')" for e s'
    using that by (simp add: start_def create)
  have walk: "((\<exists>approved'. r = Inr approved')
              \<and> additions (snd s')
                  = additions (snd s) @ map (\<lambda>tx. (tx, None)) (concat verified))
            \<or> (\<exists>k<length (concat verified). \<exists>e. r = Inl e
              \<and> additions (snd s')
                  = additions (snd s) @ map (\<lambda>tx. (tx, None)) (take k (concat verified))
                      @ [(concat verified ! k, Some e)])"
    if "verifyTransactions env (ans_signedTx a) = Inr (Some verified)"
      "add_workflow env a approved s = (r, s')" for verified r s'
  proof -
    from that assms have "add_verified env verified approved s = (r, s')"
      by (simp add: add_workflow_def)
    then show ?thesis by (rule add_verified_trace)
  qed
  have falsy: "add_workflow env a approved s = (Inr approved, s)"
    if "verifyTransactions env (ans_signedTx a) = Inr None"
    using that assms by (simp add: add_workflow_def)
  have throws: "add_workflow env a approved s = (Inl e, s)"
    if "verifyTransactions env (ans_signedTx a) = Inl e" for e
    using that assms by (simp add: add_workflow_def)
  show ?thesis
    using falsy throws walk rejects by blast
qed

theorem add_stops_at_first_rejection_witness:
  "ans_workflow add_answers = ''add''
   \<and> verifyTransactions rejecting_admin_env (ans_signedTx add_answers)
       = Inr (Some [[''X1'', ''bad'', ''Y1'']])
   \<and> fst (add_workflow rejecting_admin_env add_answers [] ((), []))
       = Inl (JsError ''MalformedSignature'')
   \<and> additions (snd (snd (add_workflow rejecting_admin_env add_answers [] ((), []))))
       = [(''X1'', None), (''bad'', Some (JsError ''MalformedSignature''))]"
proof -
  have w: "ans_workflow add_answers = ''add''"
    by (simp add: add_answers_def)
  have v: "verifyTransactions rejecting_admin_env (ans_signedTx add_answers)
       = Inr (Some [[''X1'', ''bad'', ''Y1'']])"
    by (simp add: rejecting_admin_env_def)
  have run: "add_workflow rejecting_admin_env add_answers [] ((), [])
       = (Inl (JsError ''MalformedSignature''),
          ((), [Ev_addSignedTransaction ''X1'' (Inr [''X1'']),
                Ev_addSignedTransaction ''bad'' (Inl (JsError ''MalformedSignature''))]))"
    by (simp add: add_workflow_def w v call_addSignedTransaction_def rejecting_admin_env_def)
  have "start rejecting_admin_env 2 add_answers ((), [])
       = (Inl (JsError ''MalformedSignature''),
          ((), [Ev_addSignedTransaction ''X1'' (Inr [''X1'']),
                Ev_addSignedTransaction ''bad'' (Inl (JsError ''MalformedSignature''))]))"
    using run add_stops_at_first_rejection [OF w, of rejecting_admin_env "[]" "((), [])" 2]
    by blast
  with w v run show ?thesis by simp
qed

text \<open>
  Claim C7 as stated fails on the code: in a batch of three signatures whose second one is
  rejected by \<^verbatim>\<open>addSignedTransaction\<close>, the first is added, the third never is, and
  \<^verbatim>\<open>start\<close> rejects; and a batch that \<^verbatim>\<open>verifyTransactions\<close> answers with a falsy
  value is skipped whole.
\<close>

theorem rejected_signature_aborts_batch:
  "start rejecting_admin_env 2 add_answers ((), [])
     = (Inl (JsError ''MalformedSignature''),
        ((), [Ev_addSignedTransaction ''X1'' (Inr [''X1'']),
              Ev_addSignedTransaction ''bad'' (Inl (JsError ''MalformedSignature''))]))
   \<and> start demo_admin_env 2 add_answers ((), []) = (Inr [], ((), [Ev_connection_close]))"
  by (simp add: start_def create_workflow_def add_workflow_def get_nonce_workflow_def
      call_addSignedTransaction_def connection_close_def add_answers_def get_nonce_answers_def
      rejecting_admin_env_def demo_admin_env_def)


section \<open>Properties of the signature merge\<close>

lemma merge_signature_cases:
  "merge_signature recover known S p =
     (case recover (canonical_payload (multiSigCallRef p)) (signatureBytes p) of
        None \<Rightarrow> Inl MalformedSignature
      | Some address \<Rightarrow>
          if call_key (multiSigCallRef p) \<in> call_key ` set known
          then Inr (S(call_key (multiSigCallRef p) :=
                      (S (call_key (multiSigCallRef p)))(address \<mapsto> signatureBytes p)))
          else Inl UnknownOrMismatchedCall)"
  by (simp add: merge_signature_def Let_def)

lemma merge_as_map_add:
  "merge recover known S b k = S k ++ merge recover known empty_signature_set b k"
proof (induction b arbitrary: S)
  case Nil
  show ?case by (simp add: empty_signature_set_def)
next
  case (Cons p ps)
  show ?case
  proof (cases "merge_signature recover known S p")
    case (Inl e)
    then have "merge_signature recover known empty_signature_set p = Inl e"
      by (auto simp: merge_signature_cases split: option.splits if_splits)
    with Inl Cons.IH [of S] show ?thesis by simp
  next
    case (Inr S')
    then obtain a where a: "recover (canonical_payload (multiSigCallRef p)) (signatureBytes p) = Some a"
      and kn: "call_key (multiSigCallRef p) \<in> call_key ` set known"
      and S': "S' = S(call_key (multiSigCallRef p) :=
                      (S (call_key (multiSigCallRef p)))(a \<mapsto> signatureBytes p))"
      by (auto simp: merge_signature_cases split: option.splits if_splits)
    define E where "E = empty_signature_set(call_key (multiSigCallRef p) :=
                      (empty_signature_set (call_key (multiSigCallRef p)))(a \<mapsto> signatureBytes p))"
    have E: "merge_signature recover known empty_signature_set p = Inr E"
      using a kn by (simp add: merge_signature_cases E_def)
    have "merge recover known S (p # ps) k = S' k ++ merge recover known empty_signature_set ps k"
      using Inr Cons.IH [of S'] by simp
    moreover have "merge recover known empty_signature_set (p # ps) k
        = E k ++ merge recover known empty_signature_set ps k"
      using E Cons.IH [of E] by simp
    moreover have "S' k = S k ++ E k"
      by (simp add: S' E_def empty_signature_set_def)
    ultimately show ?thesis by simp
  qed
qed

lemma map_add_self: "m ++ m = m"
  by (rule ext) (simp add: map_add_def split: option.splits)

lemma merge_idempotent:
  "merge recover known (merge recover known S b) b = merge recover known S b"
proof (rule ext)
  fix k
  have "merge recover known (merge recover known S b) b k
      = (S k ++ merge recover known empty_signature_set b k) ++ merge recover known empty_signature_set b k"
    by (simp add: merge_as_map_add [of recover known "merge recover known S b"]
        merge_as_map_add [of recover known S])
  also have "\<dots> = S k ++ merge recover known empty_signature_set b k"
    by (metis map_add_assoc map_add_self)
  finally show "merge recover known (merge recover known S b) b k = merge recover known S b k"
    by (simp add: merge_as_map_add [of recover known S])
qed

lemma merge_written:
  "merge recover known empty_signature_set b k a = Some v \<Longrightarrow>
     \<exists>p\<in>set b. call_key (multiSigCallRef p) = k
        \<and> recover (canonical_payload (multiSigCallRef p)) (signatureBytes p) = Some a
        \<and> signatureBytes p = v"
proof (induction b)
  case Nil
  then show ?case by (simp add: empty_signature_set_def)
next
  case (Cons p ps)
  show ?case
  proof (cases "merge_signature recover known empty_signature_set p")
    case (Inl e)
    with Cons.prems have "merge recover known empty_signature_set ps k a = Some v" by simp
    with Cons.IH show ?thesis by auto
  next
    case (Inr E)
    with Cons.prems have "merge recover known E ps k a = Some v" by simp
    then have "(E k ++ merge recover known empty_signature_set ps k) a = Some v"
      using merge_as_map_add [of recover known E ps k] by simp
    then consider "merge recover known empty_signature_set ps k a = Some v" | "E k a = Some v"
      by (auto simp: map_add_Some_iff)
    then show ?thesis
    proof cases
      case 1
      with Cons.IH show ?thesis by auto
    next
      case 2
      with Inr show ?thesis
        by (auto simp: merge_signature_cases empty_signature_set_def
            split: option.splits if_splits)
    qed
  qed
qed

lemma merge_written_iff_dom:
  "a \<in> dom (merge recover known empty_signature_set b k) \<longleftrightarrow>
     (\<exists>p\<in>set b. call_key (multiSigCallRef p) = k \<and> k \<in> call_key ` set known
        \<and> recover (canonical_payload (multiSigCallRef p)) (signatureBytes p) = Some a)"
proof (induction b)
  case Nil
  show ?case by (simp add: empty_signature_set_def)
next
  case (Cons p ps)
  show ?case
  proof (cases "merge_signature recover known empty_signature_set p")
    case (Inl e)
    then have "\<not> (call_key (multiSigCallRef p) \<in> call_key ` set known
        \<and> recover (canonical_payload (multiSigCallRef p)) (signatureBytes p) \<noteq> None)"
      by (auto simp: merge_signature_cases split: option.splits if_splits)
    with Inl Cons.IH show ?thesis by auto
  next
    case (Inr E)
    then obtain b where b: "recover (canonical_payload (multiSigCallRef p)) (signatureBytes p) = Some b"
      and kn: "call_key (multiSigCallRef p) \<in> call_key ` set known"
      and E: "E = empty_signature_set(call_key (multiSigCallRef p) :=
                      (empty_signature_set (call_key (multiSigCallRef p)))(b \<mapsto> signatureBytes p))"
      by (auto simp: merge_signature_cases split: option.splits if_splits)
    have "merge recover known empty_signature_set (p # ps) k = E k ++ merge recover known empty_signature_set ps k"
      using Inr merge_as_map_add [of recover known E ps k] by simp
    then have "dom (merge recover known empty_signature_set (p # ps) k)
        = dom (E k) \<union> dom (merge recover known empty_signature_set ps k)"
      by auto
    moreover have "dom (E k) = (if k = call_key (multiSigCallRef p) then {b} else {})"
      by (simp add: E empty_signature_set_def)
    ultimately show ?thesis using Cons.IH b kn by auto
  qed
qed

lemma merge_signers:
  "signers (merge recover known S b) k
     = signers S k \<union> {a. \<exists>p\<in>set b. call_key (multiSigCallRef p) = k \<and> k \<in> call_key ` set known
          \<and> recover (canonical_payload (multiSigCallRef p)) (signatureBytes p) = Some a}"
proof -
  have "dom (merge recover known S b k) = dom (S k) \<union> dom (merge recover known empty_signature_set b k)"
    using merge_as_map_add [of recover known S b k] by auto
  then show ?thesis
    unfolding signers_def using merge_written_iff_dom [of _ recover known b k] by blast
qed

lemma map_add_commute_compatible:
  assumes "\<And>a v1 v2. W1 a = Some v1 \<Longrightarrow> W2 a = Some v2 \<Longrightarrow> v1 = v2"
  shows "W1 ++ W2 = W2 ++ W1"
proof (rule ext)
  fix a
  show "(W1 ++ W2) a = (W2 ++ W1) a"
  proof (cases "W1 a")
    case None
    then show ?thesis by (cases "W2 a") (simp_all add: map_add_def)
  next
    case (Some v1)
    show ?thesis
    proof (cases "W2 a")
      case None
      with Some show ?thesis by (simp add: map_add_def)
    next
      case (Some v2)
      with \<open>W1 a = Some v1\<close> assms [of a v1 v2] show ?thesis by (simp add: map_add_def)
    qed
  qed
qed

lemma map_add_swap:
  assumes "W1 ++ W2 = W2 ++ W1"
  shows "(M ++ W1) ++ W2 = (M ++ W2) ++ W1"
proof -
  have "(M ++ W1) ++ W2 = M ++ (W1 ++ W2)"
    by (rule map_add_assoc [symmetric])
  also have "\<dots> = M ++ (W2 ++ W1)"
    by (simp only: assms)
  also have "\<dots> = (M ++ W2) ++ W1"
    by (rule map_add_assoc)
  finally show ?thesis .
qed

lemma merge_twice:
  "merge recover known (merge recover known S b1) b2 k
     = (S k ++ merge recover known empty_signature_set b1 k)
         ++ merge recover known empty_signature_set b2 k"
proof -
  have "merge recover known (merge recover known S b1) b2 k
      = merge recover known S b1 k ++ merge recover known empty_signature_set b2 k"
    by (rule merge_as_map_add)
  also have "merge recover known S b1 k = S k ++ merge recover known empty_signature_set b1 k"
    by (rule merge_as_map_add)
  finally show ?thesis .
qed

lemma merge_commute_if_agree:
  assumes agree: "\<And>p q. p \<in> set b1 \<Longrightarrow> q \<in> set b2 \<Longrightarrow>
       call_key (multiSigCallRef p) = call_key (multiSigCallRef q) \<Longrightarrow>
       recover (canonical_payload (multiSigCallRef p)) (signatureBytes p)
         = recover (canonical_payload (multiSigCallRef q)) (signatureBytes q) \<Longrightarrow>
       recover (canonical_payload (multiSigCallRef p)) (signatureBytes p) \<noteq> None \<Longrightarrow>
       signatureBytes p = signatureBytes q"
  shows "merge recover known (merge recover known S b1) b2
       = merge recover known (merge recover known S b2) b1"
proof (rule ext)
  fix k
  have compatible: "v1 = v2"
    if w1: "merge recover known empty_signature_set b1 k a = Some v1"
    and w2: "merge recover known empty_signature_set b2 k a = Some v2" for a v1 v2
  proof -
    from merge_written [OF w1]
    obtain p where p: "p \<in> set b1" "call_key (multiSigCallRef p) = k"
      "recover (canonical_payload (multiSigCallRef p)) (signatureBytes p) = Some a"
      "signatureBytes p = v1"
      by blast
    from merge_written [OF w2]
    obtain q where q: "q \<in> set b2" "call_key (multiSigCallRef q) = k"
      "recover (canonical_payload (multiSigCallRef q)) (signatureBytes q) = Some a"
      "signatureBytes q = v2"
      by blast
    have k: "call_key (multiSigCallRef p) = call_key (multiSigCallRef q)"
      by (simp only: p(2) q(2))
    have r: "recover (canonical_payload (multiSigCallRef p)) (signatureBytes p)
         = recover (canonical_payload (multiSigCallRef q)) (signatureBytes q)"
      by (simp only: p(3) q(3))
    have n: "recover (canonical_payload (multiSigCallRef p)) (signatureBytes p) \<noteq> None"
      by (simp add: p(3))
    have "signatureBytes p = signatureBytes q"
      by (rule agree [OF p(1) q(1) k r n])
    then show ?thesis by (simp only: p(4) q(4))
  qed
  show "merge recover known (merge recover known S b1) b2 k
       = merge recover known (merge recover known S b2) b1 k"
    unfolding merge_twice
    by (rule map_add_swap, rule map_add_commute_compatible, rule compatible)
qed

lemma merge_drops_rejected:
  assumes "merge_signature recover known T p = Inl e"
  shows "merge recover known S (xs @ p # ys) = merge recover known S (xs @ ys)"
proof -
  have rej: "merge_signature recover known S' p = Inl e" for S'
    using assms by (auto simp: merge_signature_cases split: option.splits if_splits)
  show ?thesis
  proof (induction xs arbitrary: S)
    case Nil
    show ?case using rej [of S] by simp
  next
    case (Cons x xs)
    show ?case
      by (cases "merge_signature recover known S x") (simp_all add: Cons.IH)
  qed
qed

lemma merge_signature_signers:
  assumes "merge_signature recover known S p = Inr S'"
    and "recover (canonical_payload (multiSigCallRef p)) (signatureBytes p) = Some a"
    and "a \<in> signers S (call_key (multiSigCallRef p))"
  shows "signers S' k = signers S k"
  using assms
  by (auto simp: merge_signature_cases signers_def split: if_splits)

lemma merge_append:
  "merge recover known S (xs @ ys) = merge recover known (merge recover known S xs) ys"
  by (induction xs arbitrary: S) (simp_all split: sum.splits)

lemma not_accepted_rejected:
  "\<not> accepted recover known p \<Longrightarrow> \<exists>e. merge_signature recover known S p = Inl e"
  by (auto simp: accepted_def merge_signature_cases split: option.splits)

text \<open>
  The loop of the \<^verbatim>\<open>add\<close> workflow and the merge of the specification. Let the state of the
  outside be the SignatureSet. If \<^verbatim>\<open>addSignedTransaction\<close> stores every signature that
  passes verification as step 4 of Merge says, then the loop, run on the groups of a batch from
  which the signatures that fail verification have been removed, fulfils and leaves the
  SignatureSet that \<open>merge\<close> computes from the whole batch. The recovery of section 7 is thus
  the removal before the loop, not a part of the loop.
\<close>

lemma add_transactions_computes_merge:
  fixes env :: "(signature_set, partial_signature) admin_env"
  assumes stores: "\<And>p S. accepted recover known p \<Longrightarrow>
      \<exists>r S'. merge_signature recover known S p = Inr S'
             \<and> addSignedTransaction env p S = (Inr r, S')"
  shows "\<exists>a tr'. add_transactions env (filter (accepted recover known) ps) approvals (S, tr)
           = (Inr a, (merge recover known S ps, tr'))"
proof (induction ps arbitrary: approvals S tr)
  case Nil
  show ?case by simp
next
  case (Cons p ps)
  show ?case
  proof (cases "accepted recover known p")
    case True
    from stores [OF True, of S] obtain r S' where
      m: "merge_signature recover known S p = Inr S'"
      and c: "addSignedTransaction env p S = (Inr r, S')"
      by blast
    from Cons.IH [of "Some r" S' "tr @ [Ev_addSignedTransaction p (Inr r)]"]
    obtain a tr' where
      "add_transactions env (filter (accepted recover known) ps) (Some r)
         (S', tr @ [Ev_addSignedTransaction p (Inr r)]) = (Inr a, (merge recover known S' ps, tr'))"
      by blast
    then show ?thesis
      using True m c by (simp add: call_addSignedTransaction_def)
  next
    case False
    from not_accepted_rejected [OF False, of S] obtain e where
      "merge_signature recover known S p = Inl e" by blast
    then show ?thesis
      using False Cons.IH [of approvals S tr] by simp
  qed
qed

lemma add_loop_computes_merge:
  fixes env :: "(signature_set, partial_signature) admin_env"
  assumes stores: "\<And>p S. accepted recover known p \<Longrightarrow>
      \<exists>r S'. merge_signature recover known S p = Inr S'
             \<and> addSignedTransaction env p S = (Inr r, S')"
  shows "\<exists>a tr'. add_verified env (map (filter (accepted recover known)) groups) approved (S, tr)
           = (Inr a, (merge recover known S (concat groups), tr'))"
proof (induction groups arbitrary: approved S tr)
  case Nil
  show ?case by simp
next
  case (Cons ps groups)
  from add_transactions_computes_merge [OF stores, where ps = ps and approvals = None and S = S and tr = tr]
  obtain a tr1 where
    inner: "add_transactions env (filter (accepted recover known) ps) None (S, tr)
           = (Inr a, (merge recover known S ps, tr1))"
    by blast
  from Cons.IH [of "approved @ [a]" "merge recover known S ps" tr1]
  obtain b tr' where
    "add_verified env (map (filter (accepted recover known)) groups) (approved @ [a])
        (merge recover known S ps, tr1)
      = (Inr b, (merge recover known (merge recover known S ps) (concat groups), tr'))"
    by blast
  then show ?case
    using inner by (simp add: merge_append)
qed

text \<open>
  Claim C6, as the model of the specification has it. Merging a batch twice gives the same
  SignatureSet as merging it once. Merging two batches in either order records the same
  signers, hence the same count, for every call; the two SignatureSets are equal whenever the
  batches carry the same signature bytes wherever they hold a signature of the same recovered
  address for the same call. A signature whose recovered address is already recorded for its
  call changes neither the signers nor the count of any call.
\<close>

theorem merge_idempotent_commutes_on_signers:
  "merge recover known (merge recover known S b) b = merge recover known S b
   \<and> signers (merge recover known (merge recover known S b1) b2) k
       = signers (merge recover known (merge recover known S b2) b1) k
   \<and> signature_count (merge recover known (merge recover known S b1) b2) k
       = signature_count (merge recover known (merge recover known S b2) b1) k
   \<and> ((\<forall>p\<in>set b1. \<forall>q\<in>set b2.
          call_key (multiSigCallRef p) = call_key (multiSigCallRef q) \<longrightarrow>
          recover (canonical_payload (multiSigCallRef p)) (signatureBytes p)
            = recover (canonical_payload (multiSigCallRef q)) (signatureBytes q) \<longrightarrow>
          recover (canonical_payload (multiSigCallRef p)) (signatureBytes p) \<noteq> None \<longrightarrow>
          signatureBytes p = signatureBytes q) \<longrightarrow>
        merge recover known (merge recover known S b1) b2
          = merge recover known (merge recover known S b2) b1)
   \<and> (merge_signature recover known S p = Inr S' \<longrightarrow>
        recover (canonical_payload (multiSigCallRef p)) (signatureBytes p) = Some a \<longrightarrow>
        a \<in> signers S (call_key (multiSigCallRef p)) \<longrightarrow>
        signers S' k = signers S k \<and> signature_count S' k = signature_count S k)"
proof -
  have same: "signers (merge recover known (merge recover known S b1) b2) k
       = signers (merge recover known (merge recover known S b2) b1) k"
    unfolding merge_signers by blast
  have count: "signature_count T k = card (signers T k)" for T
    by (simp add: signature_count_def signers_def)
  have repeat: "signers S' k = signers S k"
    if "merge_signature recover known S p = Inr S'"
      "recover (canonical_payload (multiSigCallRef p)) (signatureBytes p) = Some a"
      "a \<in> signers S (call_key (multiSigCallRef p))"
    using that by (rule merge_signature_signers)
  show ?thesis
    using merge_idempotent [of recover known S b] same
      merge_commute_if_agree [of b1 b2 recover known S] repeat
    by (simp add: count)
qed

theorem merge_idempotent_commutes_on_signers_witness:
  "merge first_byte_recovery [demo_call]
      (merge first_byte_recovery [demo_call] empty_signature_set
         [demo_signature ''X1'', demo_signature ''Y1''])
      [demo_signature ''X1'', demo_signature ''Z1'']
     = merge first_byte_recovery [demo_call]
         (merge first_byte_recovery [demo_call] empty_signature_set
            [demo_signature ''X1'', demo_signature ''Z1''])
         [demo_signature ''X1'', demo_signature ''Y1'']
   \<and> signers (merge first_byte_recovery [demo_call]
         (merge first_byte_recovery [demo_call] empty_signature_set
            [demo_signature ''X1'', demo_signature ''Y1''])
         [demo_signature ''X1'', demo_signature ''Z1'']) (call_key demo_call)
       = {''X'', ''Y'', ''Z''}"
proof -
  have agree: "\<forall>p\<in>set [demo_signature ''X1'', demo_signature ''Y1''].
        \<forall>q\<in>set [demo_signature ''X1'', demo_signature ''Z1''].
          call_key (multiSigCallRef p) = call_key (multiSigCallRef q) \<longrightarrow>
          first_byte_recovery (canonical_payload (multiSigCallRef p)) (signatureBytes p)
            = first_byte_recovery (canonical_payload (multiSigCallRef q)) (signatureBytes q) \<longrightarrow>
          first_byte_recovery (canonical_payload (multiSigCallRef p)) (signatureBytes p) \<noteq> None \<longrightarrow>
          signatureBytes p = signatureBytes q"
    by (simp add: demo_signature_def first_byte_recovery_def)
  have eq: "merge first_byte_recovery [demo_call]
      (merge first_byte_recovery [demo_call] empty_signature_set
         [demo_signature ''X1'', demo_signature ''Y1''])
      [demo_signature ''X1'', demo_signature ''Z1'']
     = merge first_byte_recovery [demo_call]
         (merge first_byte_recovery [demo_call] empty_signature_set
            [demo_signature ''X1'', demo_signature ''Z1''])
         [demo_signature ''X1'', demo_signature ''Y1'']"
    using agree
      merge_idempotent_commutes_on_signers
        [of first_byte_recovery "[demo_call]" empty_signature_set "[]"
            "[demo_signature ''X1'', demo_signature ''Y1'']"
            "[demo_signature ''X1'', demo_signature ''Z1'']"]
    by blast
  have "signers (merge first_byte_recovery [demo_call]
         (merge first_byte_recovery [demo_call] empty_signature_set
            [demo_signature ''X1'', demo_signature ''Y1''])
         [demo_signature ''X1'', demo_signature ''Z1'']) (call_key demo_call)
       = {''X'', ''Y'', ''Z''}"
    by (auto simp: merge_signature_cases signers_def demo_signature_def first_byte_recovery_def
        empty_signature_set_def)
  with eq show ?thesis by simp
qed

text \<open>
  Claim C6 as stated fails on the model: the signer \<open>''X''\<close> signs the same call twice, with
  the signature bytes \<open>''X1''\<close> and \<open>''X2''\<close>; since a repeat address overwrites, the batch
  merged last decides which bytes are kept, and the two orders give different SignatureSets.
\<close>

theorem merge_order_decides_kept_signature:
  "merge first_byte_recovery [demo_call]
      (merge first_byte_recovery [demo_call] empty_signature_set [demo_signature ''X1''])
      [demo_signature ''X2'']
   \<noteq> merge first_byte_recovery [demo_call]
       (merge first_byte_recovery [demo_call] empty_signature_set [demo_signature ''X2''])
       [demo_signature ''X1'']"
proof
  assume "merge first_byte_recovery [demo_call]
      (merge first_byte_recovery [demo_call] empty_signature_set [demo_signature ''X1''])
      [demo_signature ''X2'']
   = merge first_byte_recovery [demo_call]
       (merge first_byte_recovery [demo_call] empty_signature_set [demo_signature ''X2''])
       [demo_signature ''X1'']"
  then have "merge first_byte_recovery [demo_call]
      (merge first_byte_recovery [demo_call] empty_signature_set [demo_signature ''X1''])
      [demo_signature ''X2''] (call_key demo_call) ''X''
   = merge first_byte_recovery [demo_call]
       (merge first_byte_recovery [demo_call] empty_signature_set [demo_signature ''X2''])
       [demo_signature ''X1''] (call_key demo_call) ''X''"
    by simp
  then show False
    by (simp add: merge_signature_cases demo_signature_def first_byte_recovery_def
        empty_signature_set_def)
qed


section \<open>Properties of concurrent calls of submitTransaction\<close>



lemma reserved_not_awaiting: "reserved t = Some a \<Longrightarrow> \<not> awaiting t"
  by (cases t) simp_all











end
